theory Spec2Isabelle
  imports Complex_Main
begin

section \<open>JavaScript numbers\<close>

text \<open>
  A JavaScript number is an IEEE-754 binary64 value. A finite one is the rational it
  denotes; the two zeros are not told apart (nothing below divides by zero or inspects
  the sign of zero). \<open>to_double\<close> is rounding to nearest, ties to even, with gradual
  underflow (least exponent -1022, 52 fraction bits) and overflow to infinity; it is
  what the engine applies to a decimal literal of the source and to the exact result of
  an arithmetic operation.
\<close>

datatype number = Finite rat | PosInfinity | NegInfinity | NaN

definition pow2 :: "int \<Rightarrow> rat" where
  "pow2 e = (if 0 \<le> e then 2 ^ nat e else 1 / 2 ^ nat (- e))"

function bitlen :: "int \<Rightarrow> int" where
  "bitlen n = (if 0 < n then 1 + bitlen (n div 2) else 0)"
  by pat_completeness auto
termination
  by (relation "measure nat") auto

text \<open>For \<open>0 < q\<close>, the exponent \<open>e\<close> with \<open>2 ^ e \<le> q < 2 ^ (e + 1)\<close>.\<close>

definition exponent_of :: "rat \<Rightarrow> int" where
  "exponent_of q =
     (let (n, d) = quotient_of q;
          e0 = bitlen n - bitlen d
      in if pow2 e0 \<le> q then e0 else e0 - 1)"

definition round_half_even :: "rat \<Rightarrow> int" where
  "round_half_even m =
     (let f = \<lfloor>m\<rfloor>; r = m - of_int f
      in if r < 1 / 2 then f
         else if 1 / 2 < r then f + 1
         else if even f then f else f + 1)"

definition round_pos :: "rat \<Rightarrow> rat" where
  "round_pos q =
     (let ulp = pow2 (max (exponent_of q) (- 1022) - 52)
      in of_int (round_half_even (q / ulp)) * ulp)"

definition to_double :: "rat \<Rightarrow> number" where
  "to_double q =
     (if q = 0 then Finite 0
      else if 0 < q then
        (let r = round_pos q in if 1024 \<le> exponent_of r then PosInfinity else Finite r)
      else
        (let r = round_pos (- q) in if 1024 \<le> exponent_of r then NegInfinity else Finite (- r)))"

text \<open>The operator \<open>+\<close> on numbers (and so \<open>+=\<close>).\<close>

fun js_add :: "number \<Rightarrow> number \<Rightarrow> number" where
  "js_add NaN _ = NaN"
| "js_add _ NaN = NaN"
| "js_add PosInfinity NegInfinity = NaN"
| "js_add NegInfinity PosInfinity = NaN"
| "js_add PosInfinity _ = PosInfinity"
| "js_add _ PosInfinity = PosInfinity"
| "js_add NegInfinity _ = NegInfinity"
| "js_add _ NegInfinity = NegInfinity"
| "js_add (Finite a) (Finite b) = to_double (a + b)"

text \<open>The operator \<open>*\<close> on numbers.\<close>

fun js_mul :: "number \<Rightarrow> number \<Rightarrow> number" where
  "js_mul NaN _ = NaN"
| "js_mul _ NaN = NaN"
| "js_mul (Finite a) (Finite b) = to_double (a * b)"
| "js_mul (Finite a) PosInfinity = (if a = 0 then NaN else if 0 < a then PosInfinity else NegInfinity)"
| "js_mul (Finite a) NegInfinity = (if a = 0 then NaN else if 0 < a then NegInfinity else PosInfinity)"
| "js_mul PosInfinity (Finite b) = (if b = 0 then NaN else if 0 < b then PosInfinity else NegInfinity)"
| "js_mul NegInfinity (Finite b) = (if b = 0 then NaN else if 0 < b then NegInfinity else PosInfinity)"
| "js_mul PosInfinity PosInfinity = PosInfinity"
| "js_mul PosInfinity NegInfinity = NegInfinity"
| "js_mul NegInfinity PosInfinity = NegInfinity"
| "js_mul NegInfinity NegInfinity = PosInfinity"

type_synonym vec3 = "number \<times> number \<times> number"


section \<open>The scene payload\<close>

text \<open>
  The props of \<open>AsteroidScene\<close> (interface \<open>AsteroidSceneProps\<close>): \<open>data\<close> holds the
  array \<open>asteroids\<close>, each entry with the fields \<open>id\<close>, \<open>name\<close>, \<open>position\<close>, \<open>size\<close>
  and \<open>orbit\<close> (\<open>id\<close> and \<open>size\<close> carry a suffix here, the plain names being taken).
\<close>

record asteroid =
  id_field :: string
  name :: string
  position :: vec3
  size_field :: number
  orbit :: "vec3 list"

record scene_data =
  asteroids :: "asteroid list"


section \<open>The scene graph rendered by AsteroidScene\<close>

datatype material =
  MeshStandardMaterial
    (color: string) (emissive: "string option") (emissiveIntensity: "number option")
    (roughness: "number option") (metalness: "number option")

text \<open>
  \<open>Sphere args={[r, w, h]} position={p}\<close> with its material child, and
  \<open>Line points color lineWidth opacity transparent\<close>.
\<close>

datatype sphere =
  SphereMesh
    (radius: number) (widthSegments: nat) (heightSegments: nat)
    (mesh_position: vec3) (mesh_material: material)

datatype line =
  LineProps
    (points: "vec3 list") (line_color: string) (lineWidth: number)
    (opacity: number) (transparent: bool)

datatype node =
  Group "string option" "node list"
| Sphere sphere
| Line line

definition sun :: sphere where
  "sun = SphereMesh (to_double 1) 32 32 (to_double 0, to_double 0, to_double 0)
           (MeshStandardMaterial ''yellow'' (Some ''yellow'') (Some (to_double (6 / 10))) None None)"

definition asteroid_material :: material where
  "asteroid_material =
     MeshStandardMaterial ''gray'' None None (Some (to_double (7 / 10))) (Some (to_double (3 / 10)))"

definition asteroid_sphere :: "asteroid \<Rightarrow> sphere" where
  "asteroid_sphere a = SphereMesh (size_field a) 16 16 (position a) asteroid_material"

definition asteroid_line :: "asteroid \<Rightarrow> line" where
  "asteroid_line a = LineProps (orbit a) ''white'' (to_double 1) (to_double (3 / 10)) True"

text \<open>The element produced by the callback of \<open>data.asteroids.map\<close>, keyed by the id.\<close>

definition asteroid_group :: "asteroid \<Rightarrow> node" where
  "asteroid_group a =
     Group (Some (id_field a)) [Sphere (asteroid_sphere a), Line (asteroid_line a)]"

definition AsteroidScene :: "scene_data \<Rightarrow> node" where
  "AsteroidScene d = Group None (Sphere sun # map asteroid_group (asteroids d))"

text \<open>The sphere meshes and the polylines of a scene graph, in document order.\<close>

fun spheres :: "node \<Rightarrow> sphere list" where
  "spheres (Group k cs) = concat (map spheres cs)"
| "spheres (Sphere s) = [s]"
| "spheres (Line l) = []"

fun lines :: "node \<Rightarrow> line list" where
  "lines (Group k cs) = concat (map lines cs)"
| "lines (Sphere s) = []"
| "lines (Line l) = [l]"

text \<open>
  The key of an element and its children. React matches the children of one parent
  across renders by key; the reconciler itself is not part of this program.
\<close>

fun node_key :: "node \<Rightarrow> string option" where
  "node_key (Group k cs) = k"
| "node_key _ = None"

fun node_children :: "node \<Rightarrow> node list" where
  "node_children (Group k cs) = cs"
| "node_children _ = []"

text \<open>Everything in a record except its \<open>name\<close>.\<close>

definition strip_name :: "asteroid \<Rightarrow> string \<times> vec3 \<times> number \<times> vec3 list" where
  "strip_name a = (id_field a, position a, size_field a, orbit a)"


section \<open>The frame loop of AsteroidScene\<close>

text \<open>
  \<open>groupRef\<close> is \<open>useRef<THREE.Group>(null)\<close>: empty until the root group is committed,
  then the group object, whose Euler rotation starts at zero. The callback registered
  with \<open>useFrame\<close> receives the renderer's root state (with its clock) once per rendered
  frame; \<open>data\<close> is in scope of the callback as a prop of the component.
\<close>

record three_group =
  rotation_x :: number
  rotation_y :: number
  rotation_z :: number

record scene_instance =
  groupRef :: "three_group option"

record root_state =
  elapsedTime :: number
  delta :: number

definition useRef_null :: scene_instance where
  "useRef_null = \<lparr>groupRef = None\<rparr>"

definition new_group :: three_group where
  "new_group = \<lparr>rotation_x = to_double 0, rotation_y = to_double 0, rotation_z = to_double 0\<rparr>"

definition attach_ref :: "scene_instance \<Rightarrow> scene_instance" where
  "attach_ref s = s\<lparr>groupRef := Some new_group\<rparr>"

definition useFrame_callback :: "scene_data \<Rightarrow> root_state \<Rightarrow> scene_instance \<Rightarrow> scene_instance" where
  "useFrame_callback d st s =
     (case groupRef s of
        None \<Rightarrow> s
      | Some g \<Rightarrow> s\<lparr>groupRef := Some (g\<lparr>rotation_y := js_add (rotation_y g) (to_double (1 / 1000))\<rparr>)\<rparr>)"

text \<open>One call of the callback per rendered frame, in order.\<close>

fun run_frames :: "scene_data \<Rightarrow> root_state list \<Rightarrow> scene_instance \<Rightarrow> scene_instance" where
  "run_frames d [] s = s"
| "run_frames d (st # sts) s = run_frames d sts (useFrame_callback d st s)"


section \<open>The App component\<close>

text \<open>
  \<open>response.data\<close> has the type \<open>any\<close> and is stored unchecked. The shapes followed here:
  \<open>null\<close> (the body \<open>null\<close>); a string (a JSON string, or the raw text of a body that
  does not parse, the empty body included); an object with no property \<open>asteroids\<close>
  (such as \<open>{}\<close>); and a value of the type the props of \<open>AsteroidScene\<close> declare.
  Numbers, booleans, arrays and objects whose records are ill-typed are not followed.
\<close>

datatype response_data =
  Null
| Text string
| Object_without_asteroids
| Payload scene_data

text \<open>JavaScript truthiness of such a value.\<close>

fun truthy_data :: "response_data \<Rightarrow> bool" where
  "truthy_data Null = False"
| "truthy_data (Text t) = (t \<noteq> [])"
| "truthy_data Object_without_asteroids = True"
| "truthy_data (Payload d) = True"

text \<open>
  The three \<open>useState\<close> cells of \<open>App\<close>, together with what the effect has done so far:
  the requests issued with \<open>axios.get\<close> and whether the promise awaited in
  \<open>fetchSceneData\<close> is still pending.
\<close>

record component =
  sceneData :: response_data
  loading :: bool
  error :: "string option"
  requests :: "string list"
  pending :: bool

datatype failure = NetworkError | StatusError nat | Thrown string

datatype outcome = Fulfilled response_data | Rejected failure

text \<open>A fulfilment whose data has the declared shape.\<close>

abbreviation Resolved :: "scene_data \<Rightarrow> outcome" where
  "Resolved d \<equiv> Fulfilled (Payload d)"

text \<open>
  What \<open>axios.get\<close>, called with a URL and no options, makes of the exchange. Without a
  response the promise is rejected. With one, the default \<open>validateStatus\<close> fulfils for a
  status from 200 to 299 and rejects otherwise; the default \<open>transformResponse\<close> parses
  the body as JSON and, when it does not parse, hands on its raw text instead of
  throwing.
\<close>

datatype body = Parsable response_data | Unparsable string

datatype exchange = Network_failure | Response nat body

fun axios_get :: "exchange \<Rightarrow> outcome" where
  "axios_get Network_failure = Rejected NetworkError"
| "axios_get (Response status b) =
     (if 200 \<le> status \<and> status < 300
      then Fulfilled (case b of Parsable v \<Rightarrow> v | Unparsable t \<Rightarrow> Text t)
      else Rejected (StatusError status))"

definition initial :: component where
  "initial = \<lparr>sceneData = Null, loading = True, error = None, requests = [], pending = False\<rparr>"

definition setSceneData :: "response_data \<Rightarrow> component \<Rightarrow> component" where
  "setSceneData v s = s\<lparr>sceneData := v\<rparr>"

definition setLoading :: "bool \<Rightarrow> component \<Rightarrow> component" where
  "setLoading v s = s\<lparr>loading := v\<rparr>"

definition setError :: "string option \<Rightarrow> component \<Rightarrow> component" where
  "setError v s = s\<lparr>error := v\<rparr>"

text \<open>\<open>fetchSceneData\<close> up to its \<open>await\<close>: the request goes out.\<close>

definition fetchSceneData_call :: "component \<Rightarrow> component" where
  "fetchSceneData_call s = s\<lparr>requests := requests s @ [''/api/v1/viz/3d-scene''], pending := True\<rparr>"

text \<open>
  \<open>fetchSceneData\<close> after its \<open>await\<close>: the \<open>try\<close> branch when the promise is fulfilled,
  storing \<open>response.data\<close> whatever it is; the \<open>catch\<close> branch when it is rejected,
  whatever the reason.
\<close>

fun fetchSceneData_resume :: "outcome \<Rightarrow> component \<Rightarrow> component" where
  "fetchSceneData_resume (Fulfilled v) s = setLoading False (setSceneData v s)"
| "fetchSceneData_resume (Rejected err) s =
     setLoading False (setError (Some ''Failed to load asteroid data'') s)"

text \<open>
  The effect has the empty dependency list: it runs once, after the first commit.
\<close>

definition mount :: component where
  "mount = fetchSceneData_call initial"

text \<open>
  What can happen to a mounted component: the awaited promise settles (a promise settles
  at most once, so a settlement when none is pending changes nothing), or the component
  is rendered again. The rest of \<open>fetchSceneData\<close> runs to its end in one task, and
  React applies the state updates made in one task together, so a settlement is one
  transition of the component. Rendering calls no setter.
\<close>

datatype event = Settle outcome | Rerender

fun step :: "event \<Rightarrow> component \<Rightarrow> component" where
  "step (Settle r) s = (if pending s then (fetchSceneData_resume r s)\<lparr>pending := False\<rparr> else s)"
| "step Rerender s = s"

fun run :: "event list \<Rightarrow> component \<Rightarrow> component" where
  "run [] s = s"
| "run (e # es) s = run es (step e s)"

text \<open>
  \<open>AsteroidScene\<close> called with props of any of these shapes. \<open>data.asteroids\<close> is
  \<open>undefined\<close> on a string and on an object without that property, and reading it off
  \<open>null\<close> fails, so \<open>data.asteroids.map\<close> throws a TypeError unless the data has the
  declared shape.
\<close>

datatype js_error = TypeError | RangeError

fun call_AsteroidScene :: "response_data \<Rightarrow> js_error + node" where
  "call_AsteroidScene (Payload d) = Inr (AsteroidScene d)"
| "call_AsteroidScene Null = Inl TypeError"
| "call_AsteroidScene (Text t) = Inl TypeError"
| "call_AsteroidScene Object_without_asteroids = Inl TypeError"

text \<open>
  The element returned by \<open>App\<close>, with \<open>AsteroidScene\<close> called where \<open>App\<close> places it;
  where that call throws, the error stands in its place.
\<close>

datatype canvas_child =
  ColorAttach string string
| Stars number number number number number
| OrbitControls bool bool bool
| AmbientLight number
| PointLight vec3 number
| Scene node
| Broken js_error

datatype view =
  Div string string
| CanvasDiv string vec3 number "canvas_child list"

text \<open>JavaScript truthiness of a value of type \<open>string | null\<close>.\<close>

fun truthy :: "string option \<Rightarrow> bool" where
  "truthy None = False"
| "truthy (Some e) = (e \<noteq> [])"

definition fixed_children :: "canvas_child list" where
  "fixed_children =
     [ColorAttach ''background'' ''#000'',
      Stars (to_double 100) (to_double 50) (to_double 5000) (to_double 4) (to_double 0),
      OrbitControls True True True,
      AmbientLight (to_double (5 / 10)),
      PointLight (to_double 10, to_double 10, to_double 10) (to_double (15 / 10))]"

text \<open>
  \<open>{sceneData && <AsteroidScene data={sceneData} />}\<close>: for falsy data the expression is
  the data itself, \<open>null\<close> or the empty string, for which React renders nothing.
\<close>

definition scene_child :: "response_data \<Rightarrow> canvas_child list" where
  "scene_child sd =
     (if truthy_data sd
      then (case call_AsteroidScene sd of Inr n \<Rightarrow> [Scene n] | Inl e \<Rightarrow> [Broken e])
      else [])"

definition App :: "component \<Rightarrow> view" where
  "App s =
     (if loading s then Div ''loading'' ''Loading asteroid data...''
      else if truthy (error s) then Div ''error'' (case error s of Some e \<Rightarrow> e | None \<Rightarrow> [])
      else CanvasDiv ''app'' (to_double 0, to_double 20, to_double 20) (to_double 60)
             (fixed_children @ scene_child (sceneData s)))"

fun child_spheres :: "canvas_child \<Rightarrow> sphere list" where
  "child_spheres (Scene n) = spheres n"
| "child_spheres _ = []"

fun child_lines :: "canvas_child \<Rightarrow> line list" where
  "child_lines (Scene n) = lines n"
| "child_lines _ = []"

fun view_spheres :: "view \<Rightarrow> sphere list" where
  "view_spheres (Div c t) = []"
| "view_spheres (CanvasDiv c p f cs) = concat (map child_spheres cs)"

fun view_lines :: "view \<Rightarrow> line list" where
  "view_lines (Div c t) = []"
| "view_lines (CanvasDiv c p f cs) = concat (map child_lines cs)"

text \<open>
  What the libraries make of the elements. \<open>Line\<close> builds its geometry from the flattened
  points with \<open>new Float32Array(2 * (3 * n - 3))\<close> for n points, which throws a RangeError
  when there is no point; \<open>Sphere\<close> throws for no radius and no position. The errors
  thrown while a tree is rendered, in document order:
\<close>

fun thrown :: "node \<Rightarrow> js_error list" where
  "thrown (Group k cs) = concat (map thrown cs)"
| "thrown (Sphere s) = []"
| "thrown (Line l) = (if points l = [] then [RangeError] else [])"

fun child_errors :: "canvas_child \<Rightarrow> js_error list" where
  "child_errors (Scene n) = thrown n"
| "child_errors (Broken e) = [e]"
| "child_errors _ = []"

fun view_errors :: "view \<Rightarrow> js_error list" where
  "view_errors (Div c t) = []"
| "view_errors (CanvasDiv c p f cs) = concat (map child_errors cs)"

text \<open>
  What is on the page. \<open>App\<close> has no error boundary: an error thrown while rendering
  makes React unmount the whole tree, and nothing is shown.
\<close>

definition rendered :: "component \<Rightarrow> view option" where
  "rendered s = (if view_errors (App s) = [] then Some (App s) else None)"

definition shown_spheres :: "component \<Rightarrow> sphere list" where
  "shown_spheres s = (case rendered s of None \<Rightarrow> [] | Some v \<Rightarrow> view_spheres v)"

definition shown_lines :: "component \<Rightarrow> line list" where
  "shown_lines s = (case rendered s of None \<Rightarrow> [] | Some v \<Rightarrow> view_lines v)"

text \<open>
  The states of the component, read off the flags the way \<open>App\<close> branches on them:
  loading; failed, with the error set; ready, with the payload present; and, when a
  fulfilment brought no data, neither payload nor error.
\<close>

datatype phase = Loading | Ready | Failed | NoPayload

definition phase_of :: "component \<Rightarrow> phase" where
  "phase_of s =
     (if loading s then Loading
      else if truthy (error s) then Failed
      else if truthy_data (sceneData s) then Ready
      else NoPayload)"

text \<open>The first settlement in a sequence of events, if there is one.\<close>

fun first_outcome :: "event list \<Rightarrow> outcome option" where
  "first_outcome [] = None"
| "first_outcome (Settle r # es) = Some r"
| "first_outcome (Rerender # es) = first_outcome es"

text \<open>The states a run passes through, the starting state first.\<close>

fun trace :: "event list \<Rightarrow> component \<Rightarrow> component list" where
  "trace [] s = [s]"
| "trace (e # es) s = s # trace es (step e s)"


section \<open>Example inputs\<close>

definition ceres :: asteroid where
  "ceres =
     \<lparr>id_field = ''2000001'', name = ''Ceres'',
      position = (Finite 3, Finite 0, Finite (- 2)), size_field = Finite (1 / 2),
      orbit = [(Finite 3, Finite 0, Finite (- 2)), (Finite 0, Finite 0, Finite 4),
               (Finite (- 3), Finite 0, Finite 1)]\<rparr>"

definition eros :: asteroid where
  "eros =
     \<lparr>id_field = ''2000433'', name = ''Eros'',
      position = (Finite 1, Finite 2, Finite 5), size_field = Finite (1 / 4),
      orbit = [(Finite 1, Finite 2, Finite 5), (Finite 5, Finite 2, Finite 1)]\<rparr>"

definition example_payload :: scene_data where
  "example_payload = \<lparr>asteroids = [ceres, eros]\<rparr>"

definition renamed_payload :: scene_data where
  "renamed_payload =
     \<lparr>asteroids = [ceres\<lparr>name := ''(1) Ceres''\<rparr>, eros\<lparr>name := ''433 Eros''\<rparr>]\<rparr>"

definition vesta :: asteroid where
  "vesta =
     \<lparr>id_field = ''2000004'', name = ''Vesta'',
      position = (Finite 2, Finite 1, Finite 0), size_field = Finite (1 / 2), orbit = []\<rparr>"

definition broken_payload :: scene_data where
  "broken_payload = \<lparr>asteroids = [vesta]\<rparr>"

definition failure_events :: "event list" where
  "failure_events = [Rerender, Settle (Rejected NetworkError), Rerender]"

definition success_events :: "event list" where
  "success_events = [Rerender, Settle (Resolved example_payload), Rerender]"

definition later_events :: "event list" where
  "later_events = [Settle (Resolved example_payload), Rerender, Settle (Rejected (StatusError 500))]"

definition three_frames :: "root_state list" where
  "three_frames =
     [\<lparr>elapsedTime = Finite (1 / 64), delta = Finite (1 / 64)\<rparr>,
      \<lparr>elapsedTime = Finite (1 / 2), delta = Finite (31 / 64)\<rparr>,
      \<lparr>elapsedTime = Finite 7, delta = Finite (13 / 2)\<rparr>]"

definition ten_frames :: "root_state list" where
  "ten_frames = replicate 10 \<lparr>elapsedTime = Finite 0, delta = Finite (1 / 64)\<rparr>"


section \<open>Facts about the rendered scene graph\<close>

lemma spheres_groups: "concat (map (spheres \<circ> asteroid_group) as) = map asteroid_sphere as"
  by (induction as) (simp_all add: asteroid_group_def)

lemma lines_groups: "concat (map (lines \<circ> asteroid_group) as) = map asteroid_line as"
  by (induction as) (simp_all add: asteroid_group_def)

lemma spheres_AsteroidScene: "spheres (AsteroidScene d) = sun # map asteroid_sphere (asteroids d)"
  by (simp add: AsteroidScene_def spheres_groups)

lemma lines_AsteroidScene: "lines (AsteroidScene d) = map asteroid_line (asteroids d)"
  by (simp add: AsteroidScene_def lines_groups)

lemma node_key_group: "node_key (asteroid_group a) = Some (id_field a)"
  by (simp add: asteroid_group_def)

lemma keys_groups: "map (node_key \<circ> asteroid_group) as = map (\<lambda>a. Some (id_field a)) as"
  by (simp add: node_key_group)

lemma to_double_0: "to_double 0 = Finite 0"
  by (simp add: to_double_def)

lemma to_double_1: "to_double 1 = Finite 1"
  by code_simp

lemma to_double_six_tenths: "to_double (6 / 10) = Finite (5404319552844595 / 9007199254740992)"
  by code_simp


section \<open>Facts about the fetch state of App\<close>

lemma settled_fulfilled:
  "step (Settle (Fulfilled v)) mount =
     \<lparr>sceneData = v, loading = False, error = None,
      requests = [''/api/v1/viz/3d-scene''], pending = False\<rparr>"
  by (simp add: mount_def initial_def fetchSceneData_call_def setLoading_def setSceneData_def)

lemma resume_resolved:
  "step (Settle (Resolved d)) mount =
     \<lparr>sceneData = Payload d, loading = False, error = None,
      requests = [''/api/v1/viz/3d-scene''], pending = False\<rparr>"
  by (rule settled_fulfilled)

lemma resume_rejected:
  "step (Settle (Rejected err)) mount =
     \<lparr>sceneData = Null, loading = False, error = Some ''Failed to load asteroid data'',
      requests = [''/api/v1/viz/3d-scene''], pending = False\<rparr>"
  by (simp add: mount_def initial_def fetchSceneData_call_def setLoading_def setError_def)

lemma not_pending_settled: "\<not> pending (step (Settle r) mount)"
  by (simp add: mount_def fetchSceneData_call_def)

lemma run_not_pending: "\<not> pending s \<Longrightarrow> run es s = s"
proof (induction es)
  case Nil
  show ?case by simp
next
  case (Cons e es)
  then show ?case by (cases e) simp_all
qed

lemma run_append: "run (xs @ ys) s = run ys (run xs s)"
  by (induction xs arbitrary: s) simp_all

lemma run_rerenders: "run (replicate n Rerender) s = s"
  by (induction n) simp_all

text \<open>Only the first settlement matters: a run from the mounted state ends where it leads.\<close>

lemma run_mount:
  "run evs mount = (case first_outcome evs of None \<Rightarrow> mount | Some r \<Rightarrow> step (Settle r) mount)"
proof (induction evs rule: first_outcome.induct)
  case 1
  show ?case by simp
next
  case (2 r es)
  show ?case using not_pending_settled [of r] by (simp add: run_not_pending)
next
  case (3 es)
  then show ?case by simp
qed

lemma remdups_adj_same:
  "remdups_adj (f s # map f (trace es s)) = remdups_adj (map f (trace es s))"
  by (cases es) simp_all

lemma remdups_adj_other:
  "x \<noteq> f s \<Longrightarrow> remdups_adj (x # map f (trace es s)) = x # remdups_adj (map f (trace es s))"
  by (cases es) simp_all

lemma trace_not_pending:
  "\<not> pending s \<Longrightarrow> remdups_adj (map f (trace es s)) = [f s]"
proof (induction es)
  case Nil
  show ?case by simp
next
  case (Cons e es)
  then have "step e s = s" by (cases e) simp_all
  with Cons show ?case by (simp add: remdups_adj_same)
qed

text \<open>
  What an observer of a run sees, repetitions dropped: the mounted state, then (once
  something has settled) the state the first settlement leads to.
\<close>

lemma trace_mount:
  "remdups_adj (map f (trace evs mount)) =
     (case first_outcome evs of
        None \<Rightarrow> [f mount]
      | Some r \<Rightarrow> remdups_adj [f mount, f (step (Settle r) mount)])"
proof (induction evs rule: first_outcome.induct)
  case 1
  show ?case by simp
next
  case (2 r es)
  have t: "remdups_adj (map f (trace es (step (Settle r) mount))) = [f (step (Settle r) mount)]"
    using not_pending_settled by (rule trace_not_pending)
  show ?case
  proof (cases "f mount = f (step (Settle r) mount)")
    case True
    then show ?thesis
      using t remdups_adj_same [of f "step (Settle r) mount" es]
      by (simp del: step.simps)
  next
    case False
    then show ?thesis
      using t remdups_adj_other [of "f mount" f "step (Settle r) mount" es]
      by (simp del: step.simps)
  qed
next
  case (3 es)
  then show ?case by (simp add: remdups_adj_same)
qed

lemma phase_mount: "phase_of mount = Loading"
  by (simp add: phase_of_def mount_def fetchSceneData_call_def initial_def)

lemma phase_fulfilled:
  "phase_of (step (Settle (Fulfilled v)) mount) = (if truthy_data v then Ready else NoPayload)"
  unfolding settled_fulfilled by (simp add: phase_of_def)

lemma phase_rejected: "phase_of (step (Settle (Rejected err)) mount) = Failed"
  unfolding resume_rejected by (simp add: phase_of_def)

lemma requests_mount: "requests mount = [''/api/v1/viz/3d-scene'']"
  by (simp add: mount_def fetchSceneData_call_def initial_def)

lemma requests_settled: "requests (step (Settle r) mount) = [''/api/v1/viz/3d-scene'']"
  by (cases r) (simp_all only: settled_fulfilled resume_rejected component.simps)

lemma App_mount: "App mount = Div ''loading'' ''Loading asteroid data...''"
  by (simp add: App_def mount_def fetchSceneData_call_def initial_def)

lemma App_resolved:
  "App (step (Settle (Resolved d)) mount)
     = CanvasDiv ''app'' (to_double 0, to_double 20, to_double 20) (to_double 60)
         (fixed_children @ [Scene (AsteroidScene d)])"
  unfolding resume_resolved by (simp add: App_def scene_child_def)

lemma App_rejected:
  "App (step (Settle (Rejected err)) mount) = Div ''error'' ''Failed to load asteroid data''"
  unfolding resume_rejected by (simp add: App_def)

lemma App_fulfilled:
  "App (step (Settle (Fulfilled v)) mount)
     = CanvasDiv ''app'' (to_double 0, to_double 20, to_double 20) (to_double 60)
         (fixed_children @ scene_child v)"
  unfolding settled_fulfilled by (simp add: App_def)

text \<open>A tree renders without an error exactly when no record has an empty orbit.\<close>

lemma thrown_group: "thrown (asteroid_group a) = (if orbit a = [] then [RangeError] else [])"
  by (simp add: asteroid_group_def asteroid_line_def)

lemma thrown_groups:
  "(concat (map (thrown \<circ> asteroid_group) as) = []) = (\<forall>a \<in> set as. orbit a \<noteq> [])"
  by (induction as) (simp_all add: thrown_group)

lemma thrown_AsteroidScene:
  "(thrown (AsteroidScene d) = []) = (\<forall>a \<in> set (asteroids d). orbit a \<noteq> [])"
proof -
  have "thrown (AsteroidScene d) = concat (map (thrown \<circ> asteroid_group) (asteroids d))"
    by (simp add: AsteroidScene_def)
  then show ?thesis
    by (simp only: thrown_groups)
qed

lemma errors_resolved:
  "view_errors (App (step (Settle (Resolved d)) mount)) = thrown (AsteroidScene d)"
  unfolding App_resolved by (simp add: fixed_children_def)

lemma rendered_resolved:
  "\<forall>a \<in> set (asteroids d). orbit a \<noteq> [] \<Longrightarrow>
     rendered (step (Settle (Resolved d)) mount) = Some (App (step (Settle (Resolved d)) mount))"
  by (simp add: rendered_def errors_resolved thrown_AsteroidScene del: step.simps)

lemma rendered_empty_orbit:
  "\<not> (\<forall>a \<in> set (asteroids d). orbit a \<noteq> []) \<Longrightarrow>
     rendered (step (Settle (Resolved d)) mount) = None"
  by (simp add: rendered_def errors_resolved thrown_AsteroidScene del: step.simps)

lemma rendered_rejected:
  "rendered (step (Settle (Rejected err)) mount) = Some (Div ''error'' ''Failed to load asteroid data'')"
  by (simp add: rendered_def App_rejected del: step.simps)

lemma rendered_mount: "rendered mount = Some (Div ''loading'' ''Loading asteroid data...'')"
  by (simp add: rendered_def App_mount)

lemma rendered_null:
  "rendered (step (Settle (Fulfilled Null)) mount)
     = Some (CanvasDiv ''app'' (to_double 0, to_double 20, to_double 20) (to_double 60) fixed_children)"
  unfolding rendered_def App_fulfilled by (simp add: scene_child_def fixed_children_def)

lemma rendered_not_payload:
  "truthy_data v \<Longrightarrow> call_AsteroidScene v = Inl e \<Longrightarrow>
     rendered (step (Settle (Fulfilled v)) mount) = None"
  unfolding rendered_def App_fulfilled by (simp add: scene_child_def)

lemma single_run: "run [e] s = step e s"
  by simp

lemma broken_payload_empty_orbit: "\<not> (\<forall>a \<in> set (asteroids broken_payload). orbit a \<noteq> [])"
  by (simp add: broken_payload_def vesta_def)

lemma no_empty_orbit: "([] \<notin> set (map orbit as)) = (\<forall>a \<in> set as. orbit a \<noteq> [])"
  by (induction as) auto

lemma example_orbits: "[] \<notin> set (map orbit (asteroids example_payload))"
  by (simp add: example_payload_def ceres_def eros_def)

lemma first_outcome_failure: "first_outcome failure_events = Some (Rejected NetworkError)"
  by (simp add: failure_events_def)

lemma first_outcome_success: "first_outcome success_events = Some (Resolved example_payload)"
  by (simp add: success_events_def)

lemma example_ids_distinct: "distinct (map id_field (asteroids example_payload))"
  by (simp add: example_payload_def ceres_def eros_def)


section \<open>The rendered scene\<close>

text \<open>
  Claim C1, as the code has it. A payload with N records, none of them with an empty
  orbit, is rendered as N + 1 sphere meshes (the records' spheres and the central body)
  and N polylines: that is what is on the page once the payload has been fetched, and
  what the element tree of \<open>AsteroidScene\<close> holds. For the payload with no records,
  the page shows the canvas (not the error text) and the scene holds the central body
  alone.
\<close>

theorem scene_counts:
  "[] \<notin> set (map orbit (asteroids d)) \<Longrightarrow>
     rendered (step (Settle (Resolved d)) mount) = Some (App (step (Settle (Resolved d)) mount))
     \<and> length (shown_spheres (step (Settle (Resolved d)) mount)) = length (asteroids d) + 1
     \<and> length (shown_lines (step (Settle (Resolved d)) mount)) = length (asteroids d)
     \<and> length (spheres (AsteroidScene d)) = length (asteroids d) + 1
     \<and> length (lines (AsteroidScene d)) = length (asteroids d)
     \<and> rendered (step (Settle (Resolved \<lparr>asteroids = []\<rparr>)) mount)
         = Some (CanvasDiv ''app'' (to_double 0, to_double 20, to_double 20) (to_double 60)
                   (fixed_children @ [Scene (Group None [Sphere sun])]))
     \<and> shown_spheres (step (Settle (Resolved \<lparr>asteroids = []\<rparr>)) mount) = [sun]
     \<and> shown_lines (step (Settle (Resolved \<lparr>asteroids = []\<rparr>)) mount) = []"
proof -
  assume "[] \<notin> set (map orbit (asteroids d))"
  then have h: "\<forall>a \<in> set (asteroids d). orbit a \<noteq> []"
    by (simp only: no_empty_orbit)
  note r = rendered_resolved [OF h]
  have c: "length (view_spheres (App (step (Settle (Resolved d)) mount))) = length (asteroids d) + 1
           \<and> length (view_lines (App (step (Settle (Resolved d)) mount))) = length (asteroids d)"
    unfolding App_resolved
    by (simp add: fixed_children_def spheres_AsteroidScene lines_AsteroidScene)
  have s: "length (shown_spheres (step (Settle (Resolved d)) mount)) = length (asteroids d) + 1
           \<and> length (shown_lines (step (Settle (Resolved d)) mount)) = length (asteroids d)"
    unfolding shown_spheres_def shown_lines_def r using c by simp
  have t: "length (spheres (AsteroidScene d)) = length (asteroids d) + 1
           \<and> length (lines (AsteroidScene d)) = length (asteroids d)"
    by (simp add: spheres_AsteroidScene lines_AsteroidScene)
  have "\<forall>a \<in> set (asteroids \<lparr>asteroids = []\<rparr>). orbit a \<noteq> []"
    by simp
  then have e: "rendered (step (Settle (Resolved \<lparr>asteroids = []\<rparr>)) mount)
                  = Some (App (step (Settle (Resolved \<lparr>asteroids = []\<rparr>)) mount))"
    by (rule rendered_resolved)
  have a: "App (step (Settle (Resolved \<lparr>asteroids = []\<rparr>)) mount)
             = CanvasDiv ''app'' (to_double 0, to_double 20, to_double 20) (to_double 60)
                 (fixed_children @ [Scene (Group None [Sphere sun])])"
    unfolding App_resolved by (simp add: AsteroidScene_def)
  have e': "rendered (step (Settle (Resolved \<lparr>asteroids = []\<rparr>)) mount)
              = Some (CanvasDiv ''app'' (to_double 0, to_double 20, to_double 20) (to_double 60)
                        (fixed_children @ [Scene (Group None [Sphere sun])]))"
    unfolding e a by (rule refl)
  have z: "shown_spheres (step (Settle (Resolved \<lparr>asteroids = []\<rparr>)) mount) = [sun]
           \<and> shown_lines (step (Settle (Resolved \<lparr>asteroids = []\<rparr>)) mount) = []"
    unfolding shown_spheres_def shown_lines_def e'
    by (simp add: fixed_children_def)
  from r s t e' z show ?thesis
    by (simp only: simp_thms)
qed

theorem scene_counts_witness:
  "[] \<notin> set (map orbit (asteroids example_payload))
   \<and> length (asteroids example_payload) = 2
   \<and> length (shown_spheres (step (Settle (Resolved example_payload)) mount)) = 3
   \<and> length (shown_lines (step (Settle (Resolved example_payload)) mount)) = 2"
proof -
  have l: "length (asteroids example_payload) = 2"
    by (simp add: example_payload_def)
  from scene_counts [OF example_orbits]
  have "length (shown_spheres (step (Settle (Resolved example_payload)) mount))
          = length (asteroids example_payload) + 1"
    and "length (shown_lines (step (Settle (Resolved example_payload)) mount))
          = length (asteroids example_payload)"
    by blast+
  then have "length (shown_spheres (step (Settle (Resolved example_payload)) mount)) = 3"
    and "length (shown_lines (step (Settle (Resolved example_payload)) mount)) = 2"
    by (simp_all only: l)
  with example_orbits l show ?thesis
    by (simp only: simp_thms)
qed

text \<open>
  Claim C1, as stated, fails for a payload of the declared shape with one record whose
  orbit is empty: \<open>Line\<close> throws, the tree is unmounted, and the page shows neither the
  two spheres nor the polyline the claim counts.
\<close>

theorem empty_orbit_nothing_rendered:
  "length (asteroids broken_payload) = 1
   \<and> orbit (asteroids broken_payload ! 0) = []
   \<and> rendered (step (Settle (Resolved broken_payload)) mount) = None
   \<and> shown_spheres (step (Settle (Resolved broken_payload)) mount) = []
   \<and> shown_lines (step (Settle (Resolved broken_payload)) mount) = []
   \<and> length (shown_spheres (step (Settle (Resolved broken_payload)) mount))
       \<noteq> length (asteroids broken_payload) + 1
   \<and> length (shown_lines (step (Settle (Resolved broken_payload)) mount))
       \<noteq> length (asteroids broken_payload)"
proof -
  have l: "length (asteroids broken_payload) = 1 \<and> orbit (asteroids broken_payload ! 0) = []"
    by (simp add: broken_payload_def vesta_def)
  note r = rendered_empty_orbit [OF broken_payload_empty_orbit]
  have s: "shown_spheres (step (Settle (Resolved broken_payload)) mount) = []
           \<and> shown_lines (step (Settle (Resolved broken_payload)) mount) = []"
    unfolding shown_spheres_def shown_lines_def r by simp
  from l r s show ?thesis
    by (simp del: step.simps)
qed

text \<open>
  Claim C2. The sphere rendered for the i-th record has the record's \<open>size\<close> as its
  radius and the record's \<open>position\<close> as its position, both unchanged; it is the one
  sphere of the group keyed by that record. (Index 0 of the scene's spheres is the
  central body.)
\<close>

theorem sphere_props:
  "i < length (asteroids d) \<Longrightarrow>
     radius (spheres (AsteroidScene d) ! Suc i) = size_field (asteroids d ! i)
     \<and> mesh_position (spheres (AsteroidScene d) ! Suc i) = position (asteroids d ! i)
     \<and> spheres (asteroid_group (asteroids d ! i)) = [spheres (AsteroidScene d) ! Suc i]"
  by (simp add: spheres_AsteroidScene asteroid_sphere_def asteroid_group_def)

theorem sphere_props_witness:
  "(1::nat) < length (asteroids example_payload)
   \<and> radius (spheres (AsteroidScene example_payload) ! Suc 1) = Finite (1 / 4)
   \<and> mesh_position (spheres (AsteroidScene example_payload) ! Suc 1) = (Finite 1, Finite 2, Finite 5)"
  using sphere_props [of 1 example_payload]
  by (simp add: example_payload_def eros_def)

text \<open>
  Claim C3. For a record whose orbit has at least two points, the point list handed to
  \<open>Line\<close> is the record's orbit list itself: same points, same order.
\<close>

theorem orbit_order:
  "i < length (asteroids d) \<Longrightarrow> 2 \<le> length (orbit (asteroids d ! i)) \<Longrightarrow>
     points (lines (AsteroidScene d) ! i) = orbit (asteroids d ! i)
     \<and> lines (asteroid_group (asteroids d ! i)) = [lines (AsteroidScene d) ! i]"
  by (simp add: lines_AsteroidScene asteroid_line_def asteroid_group_def)

theorem orbit_order_witness:
  "(0::nat) < length (asteroids example_payload)
   \<and> 2 \<le> length (orbit (asteroids example_payload ! 0))
   \<and> points (lines (AsteroidScene example_payload) ! 0)
       = [(Finite 3, Finite 0, Finite (- 2)), (Finite 0, Finite 0, Finite 4),
          (Finite (- 3), Finite 0, Finite 1)]"
  using orbit_order [of 0 example_payload]
  by (simp add: example_payload_def ceres_def)

text \<open>
  Claim C6, as the code has it. Whatever payload of the declared shape was fetched, as
  long as none of its records has an empty orbit, the page shows the canvas with the
  scene of that payload, and the first mesh of the scene is the central body: radius 1,
  at the origin, 32 by 32 segments, the yellow emissive material. None of it depends on
  the asteroids list.
\<close>

theorem sun_fixed:
  "first_outcome evs = Some (Resolved d) \<Longrightarrow> [] \<notin> set (map orbit (asteroids d)) \<Longrightarrow>
     rendered (run evs mount)
       = Some (CanvasDiv ''app'' (to_double 0, to_double 20, to_double 20) (to_double 60)
                 (fixed_children @ [Scene (AsteroidScene d)]))
     \<and> (\<exists>rest. AsteroidScene d = Group None (Sphere sun # rest))
     \<and> shown_spheres (run evs mount) ! 0 = sun
     \<and> radius sun = Finite 1
     \<and> mesh_position sun = (Finite 0, Finite 0, Finite 0)
     \<and> widthSegments sun = 32 \<and> heightSegments sun = 32
     \<and> mesh_material sun
         = MeshStandardMaterial ''yellow'' (Some ''yellow'')
             (Some (Finite (5404319552844595 / 9007199254740992))) None None"
proof -
  assume o: "first_outcome evs = Some (Resolved d)"
    and "[] \<notin> set (map orbit (asteroids d))"
  then have h: "\<forall>a \<in> set (asteroids d). orbit a \<noteq> []"
    by (simp only: no_empty_orbit)
  from o have s: "run evs mount = step (Settle (Resolved d)) mount"
    by (simp add: run_mount)
  have v: "rendered (step (Settle (Resolved d)) mount)
             = Some (CanvasDiv ''app'' (to_double 0, to_double 20, to_double 20) (to_double 60)
                       (fixed_children @ [Scene (AsteroidScene d)]))"
    unfolding rendered_resolved [OF h] App_resolved by (rule refl)
  have g: "\<exists>rest. AsteroidScene d = Group None (Sphere sun # rest)"
    by (simp add: AsteroidScene_def)
  have f: "shown_spheres (step (Settle (Resolved d)) mount) ! 0 = sun"
    unfolding shown_spheres_def v by (simp add: fixed_children_def spheres_AsteroidScene)
  have c: "radius sun = Finite 1 \<and> mesh_position sun = (Finite 0, Finite 0, Finite 0)
           \<and> widthSegments sun = 32 \<and> heightSegments sun = 32
           \<and> mesh_material sun
               = MeshStandardMaterial ''yellow'' (Some ''yellow'')
                   (Some (Finite (5404319552844595 / 9007199254740992))) None None"
    unfolding sun_def to_double_0 to_double_1 to_double_six_tenths by simp
  show ?thesis using v g f c unfolding s by blast
qed

theorem sun_fixed_witness:
  "first_outcome success_events = Some (Resolved example_payload)
   \<and> [] \<notin> set (map orbit (asteroids example_payload))
   \<and> shown_spheres (run success_events mount) ! 0 = sun
   \<and> radius sun = Finite 1"
  using sun_fixed [OF first_outcome_success example_orbits] first_outcome_success example_orbits
  by blast

text \<open>
  Claim C6, as stated, fails where the data is not such a payload. A 200 whose body is
  \<open>null\<close> is stored as it is and the guard in \<open>App\<close> leaves the scene out: the canvas
  is shown without the central body. For the object \<open>{}\<close> the call of \<open>AsteroidScene\<close>
  throws, and for a payload with an empty orbit \<open>Line\<close> throws: nothing is shown.
\<close>

theorem no_sun_without_scene:
  "axios_get (Response 200 (Parsable Null)) = Fulfilled Null
   \<and> rendered (run [Settle (Fulfilled Null)] mount)
       = Some (CanvasDiv ''app'' (to_double 0, to_double 20, to_double 20) (to_double 60)
                 fixed_children)
   \<and> shown_spheres (run [Settle (Fulfilled Null)] mount) = []
   \<and> rendered (run [Settle (Fulfilled Object_without_asteroids)] mount) = None
   \<and> shown_spheres (run [Settle (Fulfilled Object_without_asteroids)] mount) = []
   \<and> rendered (run [Settle (Resolved broken_payload)] mount) = None
   \<and> shown_spheres (run [Settle (Resolved broken_payload)] mount) = []"
proof -
  have a: "axios_get (Response 200 (Parsable Null)) = Fulfilled Null"
    by simp
  note n = rendered_null
  have n': "shown_spheres (step (Settle (Fulfilled Null)) mount) = []"
    unfolding shown_spheres_def n by (simp add: fixed_children_def)
  have o: "rendered (step (Settle (Fulfilled Object_without_asteroids)) mount) = None"
    by (rule rendered_not_payload [of _ TypeError]) simp_all
  have o': "shown_spheres (step (Settle (Fulfilled Object_without_asteroids)) mount) = []"
    unfolding shown_spheres_def o by simp
  note b = rendered_empty_orbit [OF broken_payload_empty_orbit]
  have b': "shown_spheres (step (Settle (Resolved broken_payload)) mount) = []"
    unfolding shown_spheres_def b by simp
  from a n n' o o' b b' show ?thesis
    unfolding single_run by (simp only: simp_thms)
qed


section \<open>Keys and names\<close>

lemma find_group:
  "distinct (map id_field as) \<Longrightarrow> a \<in> set as \<Longrightarrow>
     find (\<lambda>n. node_key n = Some (id_field a)) (map asteroid_group as) = Some (asteroid_group a)"
proof (induction as)
  case Nil
  then show ?case by simp
next
  case (Cons x xs)
  show ?case
  proof (cases "id_field x = id_field a")
    case True
    have "a = x"
    proof (rule ccontr)
      assume "a \<noteq> x"
      with Cons.prems have "a \<in> set xs" by simp
      then have "id_field a \<in> set (map id_field xs)" by simp
      with True Cons.prems show False by simp
    qed
    then show ?thesis by (simp add: node_key_group)
  next
    case False
    with Cons.prems have "a \<in> set xs" by auto
    with Cons have "find (\<lambda>n. node_key n = Some (id_field a)) (map asteroid_group xs)
                      = Some (asteroid_group a)"
      by simp
    with False show ?thesis by (simp add: node_key_group)
  qed
qed

text \<open>
  Claim C8. Let the ids of a payload be pairwise different. Rendering again, any number
  of times, without a new payload leaves the state and what \<open>App\<close> returns as they were
  after the first render: the same N + 1 spheres and N polylines. The children of the
  root group have pairwise different keys, and the child found under the key of a
  record is the group built from that record, holding that record's sphere and orbit.
\<close>

theorem rerender_idempotent:
  "distinct (map id_field (asteroids d)) \<Longrightarrow>
     run (Settle (Resolved d) # replicate n Rerender) mount = run [Settle (Resolved d)] mount
     \<and> App (run (Settle (Resolved d) # replicate n Rerender) mount) = App (run [Settle (Resolved d)] mount)
     \<and> length (view_spheres (App (run (Settle (Resolved d) # replicate n Rerender) mount)))
         = length (asteroids d) + 1
     \<and> length (view_lines (App (run (Settle (Resolved d) # replicate n Rerender) mount)))
         = length (asteroids d)
     \<and> distinct (map node_key (node_children (AsteroidScene d)))
     \<and> (\<forall>a \<in> set (asteroids d).
          find (\<lambda>n. node_key n = Some (id_field a)) (node_children (AsteroidScene d))
            = Some (asteroid_group a)
          \<and> spheres (asteroid_group a) = [asteroid_sphere a]
          \<and> lines (asteroid_group a) = [asteroid_line a])"
proof -
  assume dist: "distinct (map id_field (asteroids d))"
  have r: "run (Settle (Resolved d) # replicate n Rerender) mount = run [Settle (Resolved d)] mount"
    by (simp add: run_rerenders del: step.simps)
  have s: "run [Settle (Resolved d)] mount = step (Settle (Resolved d)) mount"
    by (simp del: step.simps)
  have c: "length (view_spheres (App (step (Settle (Resolved d)) mount))) = length (asteroids d) + 1
           \<and> length (view_lines (App (step (Settle (Resolved d)) mount))) = length (asteroids d)"
    unfolding App_resolved
    by (simp add: fixed_children_def spheres_AsteroidScene lines_AsteroidScene)
  have "inj Some" by simp
  with dist have "distinct (map (\<lambda>a. Some (id_field a)) (asteroids d))"
    by (simp add: distinct_map comp_def inj_on_def)
  then have k: "distinct (map node_key (node_children (AsteroidScene d)))"
    by (auto simp add: AsteroidScene_def keys_groups)
  have f: "\<forall>a \<in> set (asteroids d).
             find (\<lambda>n. node_key n = Some (id_field a)) (node_children (AsteroidScene d))
               = Some (asteroid_group a)
             \<and> spheres (asteroid_group a) = [asteroid_sphere a]
             \<and> lines (asteroid_group a) = [asteroid_line a]"
  proof
    fix a assume "a \<in> set (asteroids d)"
    with dist have "find (\<lambda>n. node_key n = Some (id_field a)) (map asteroid_group (asteroids d))
                      = Some (asteroid_group a)"
      by (rule find_group)
    then show "find (\<lambda>n. node_key n = Some (id_field a)) (node_children (AsteroidScene d))
                 = Some (asteroid_group a)
               \<and> spheres (asteroid_group a) = [asteroid_sphere a]
               \<and> lines (asteroid_group a) = [asteroid_line a]"
      by (simp add: AsteroidScene_def asteroid_group_def)
  qed
  show ?thesis
    unfolding r s using c k f by simp
qed

theorem rerender_idempotent_witness:
  "distinct (map id_field (asteroids example_payload))
   \<and> eros \<in> set (asteroids example_payload)
   \<and> App (run (Settle (Resolved example_payload) # replicate 3 Rerender) mount)
       = App (run [Settle (Resolved example_payload)] mount)
   \<and> find (\<lambda>n. node_key n = Some (id_field eros)) (node_children (AsteroidScene example_payload))
       = Some (asteroid_group eros)"
proof -
  have m: "eros \<in> set (asteroids example_payload)"
    by (simp add: example_payload_def)
  note R = rerender_idempotent [OF example_ids_distinct, of 3]
  from R have a: "App (run (Settle (Resolved example_payload) # replicate 3 Rerender) mount)
                    = App (run [Settle (Resolved example_payload)] mount)"
    by blast
  from R m have b: "find (\<lambda>n. node_key n = Some (id_field eros)) (node_children (AsteroidScene example_payload))
                      = Some (asteroid_group eros)"
    by blast
  from example_ids_distinct m a b show ?thesis
    by (simp only: simp_thms)
qed

lemma asteroid_group_strip: "strip_name a = strip_name b \<Longrightarrow> asteroid_group a = asteroid_group b"
  by (simp add: strip_name_def asteroid_group_def asteroid_sphere_def asteroid_line_def)

lemma map_group_strip:
  "map strip_name as = map strip_name bs \<Longrightarrow> map asteroid_group as = map asteroid_group bs"
proof (induction as arbitrary: bs)
  case Nil
  then show ?case by simp
next
  case (Cons a as)
  from Cons.prems obtain b bs' where bs: "bs = b # bs'"
    by (cases bs) auto
  from Cons.prems bs have hd_eq: "strip_name a = strip_name b"
    and tl_eq: "map strip_name as = map strip_name bs'"
    by simp_all
  from hd_eq have "asteroid_group a = asteroid_group b"
    by (rule asteroid_group_strip)
  moreover from tl_eq have "map asteroid_group as = map asteroid_group bs'"
    by (rule Cons.IH)
  ultimately show ?case
    by (simp add: bs)
qed

text \<open>
  Claim C9. Two payloads whose records agree, one by one, on id, position, size and
  orbit (so they differ in names at most) render the same scene graph: the same meshes,
  materials and polylines, and the same element returned by \<open>App\<close>.
\<close>

theorem name_unused:
  "map strip_name (asteroids d1) = map strip_name (asteroids d2) \<Longrightarrow>
     AsteroidScene d1 = AsteroidScene d2
     \<and> spheres (AsteroidScene d1) = spheres (AsteroidScene d2)
     \<and> lines (AsteroidScene d1) = lines (AsteroidScene d2)
     \<and> App (step (Settle (Resolved d1)) mount) = App (step (Settle (Resolved d2)) mount)"
proof -
  assume "map strip_name (asteroids d1) = map strip_name (asteroids d2)"
  then have "map asteroid_group (asteroids d1) = map asteroid_group (asteroids d2)"
    by (rule map_group_strip)
  then have e: "AsteroidScene d1 = AsteroidScene d2"
    by (simp add: AsteroidScene_def)
  have a: "App (step (Settle (Resolved d1)) mount) = App (step (Settle (Resolved d2)) mount)"
    unfolding App_resolved by (simp add: e)
  show ?thesis by (simp only: e a)
qed

theorem name_unused_witness:
  "map strip_name (asteroids example_payload) = map strip_name (asteroids renamed_payload)
   \<and> map name (asteroids example_payload) \<noteq> map name (asteroids renamed_payload)
   \<and> AsteroidScene example_payload = AsteroidScene renamed_payload"
proof -
  have h: "map strip_name (asteroids example_payload) = map strip_name (asteroids renamed_payload)"
    by (simp add: example_payload_def renamed_payload_def strip_name_def)
  have n: "map name (asteroids example_payload) \<noteq> map name (asteroids renamed_payload)"
    by (simp add: example_payload_def renamed_payload_def ceres_def)
  from name_unused [OF h] have "AsteroidScene example_payload = AsteroidScene renamed_payload"
    by (rule conjunct1)
  with h n show ?thesis by blast
qed


section \<open>The fetch state machine\<close>

text \<open>
  Claim C4, as the code has it. In one mount exactly one request is issued and never
  another. The state of the component is decided by the first settlement of that
  request alone: loading until then; from then on ready, with the response data stored
  as the payload, when it was fulfilled with data that is not null or empty; failed
  when it was rejected; and with neither payload nor error when it was fulfilled with
  null or empty data. So the component leaves loading at most once, and once it is no
  longer loading, no later event changes it. Between the two setter calls of either
  branch of \<open>fetchSceneData\<close> the component is still loading.
\<close>

theorem fetch_transitions_once:
  "requests (run evs mount) = [''/api/v1/viz/3d-scene'']
   \<and> phase_of (run evs mount)
       = (case first_outcome evs of
            None \<Rightarrow> Loading
          | Some (Fulfilled v) \<Rightarrow> (if truthy_data v then Ready else NoPayload)
          | Some (Rejected err) \<Rightarrow> Failed)
   \<and> sceneData (run evs mount)
       = (case first_outcome evs of
            None \<Rightarrow> Null
          | Some (Fulfilled v) \<Rightarrow> v
          | Some (Rejected err) \<Rightarrow> Null)
   \<and> remdups_adj (map phase_of (trace evs mount))
       = (case first_outcome evs of
            None \<Rightarrow> [Loading]
          | Some (Fulfilled v) \<Rightarrow> [Loading, if truthy_data v then Ready else NoPayload]
          | Some (Rejected err) \<Rightarrow> [Loading, Failed])
   \<and> (phase_of (run evs mount) \<noteq> Loading \<longrightarrow>
        run (evs @ later) mount = run evs mount)
   \<and> phase_of (setSceneData w mount) = Loading
   \<and> phase_of (setError (Some ''Failed to load asteroid data'') mount) = Loading"
proof (intro conjI)
  show "phase_of (setSceneData w mount) = Loading"
    by (simp add: phase_of_def setSceneData_def mount_def fetchSceneData_call_def initial_def)
  show "phase_of (setError (Some ''Failed to load asteroid data'') mount) = Loading"
    by (simp add: phase_of_def setError_def mount_def fetchSceneData_call_def initial_def)
  show "requests (run evs mount) = [''/api/v1/viz/3d-scene'']"
    by (simp add: run_mount requests_mount requests_settled split: option.split del: step.simps)
  show "phase_of (run evs mount)
          = (case first_outcome evs of
               None \<Rightarrow> Loading
             | Some (Fulfilled v) \<Rightarrow> (if truthy_data v then Ready else NoPayload)
             | Some (Rejected err) \<Rightarrow> Failed)"
    by (simp add: run_mount phase_mount phase_fulfilled phase_rejected
        split: option.split outcome.split del: step.simps)
  show "sceneData (run evs mount)
          = (case first_outcome evs of
               None \<Rightarrow> Null
             | Some (Fulfilled v) \<Rightarrow> v
             | Some (Rejected err) \<Rightarrow> Null)"
  proof (cases "first_outcome evs")
    case None
    then have "run evs mount = mount"
      by (simp add: run_mount)
    then show ?thesis
      using None by (simp add: mount_def fetchSceneData_call_def initial_def)
  next
    case (Some r)
    then have "run evs mount = step (Settle r) mount"
      by (simp add: run_mount)
    then show ?thesis
      using Some by (cases r) (simp_all add: settled_fulfilled resume_rejected del: step.simps)
  qed
  show "remdups_adj (map phase_of (trace evs mount))
          = (case first_outcome evs of
               None \<Rightarrow> [Loading]
             | Some (Fulfilled v) \<Rightarrow> [Loading, if truthy_data v then Ready else NoPayload]
             | Some (Rejected err) \<Rightarrow> [Loading, Failed])"
    by (simp add: trace_mount phase_mount phase_fulfilled phase_rejected
        split: option.split outcome.split del: step.simps)
  show "phase_of (run evs mount) \<noteq> Loading \<longrightarrow> run (evs @ later) mount = run evs mount"
  proof
    assume a: "phase_of (run evs mount) \<noteq> Loading"
    have "\<not> pending (run evs mount)"
    proof (cases "first_outcome evs")
      case None
      with a show ?thesis by (simp add: run_mount phase_mount)
    next
      case (Some r)
      then show ?thesis by (simp add: run_mount not_pending_settled del: step.simps)
    qed
    then show "run (evs @ later) mount = run evs mount"
      by (simp add: run_append run_not_pending)
  qed
qed

theorem fetch_transitions_once_witness:
  "phase_of (run failure_events mount) \<noteq> Loading
   \<and> run (failure_events @ later_events) mount = run failure_events mount
   \<and> requests (run (failure_events @ later_events) mount) = [''/api/v1/viz/3d-scene'']
   \<and> remdups_adj (map phase_of (trace failure_events mount)) = [Loading, Failed]
   \<and> remdups_adj (map phase_of (trace success_events mount)) = [Loading, Ready]
   \<and> phase_of (run success_events mount) = Ready
   \<and> sceneData (run success_events mount) = Payload example_payload"
proof -
  note F = fetch_transitions_once [of failure_events later_events]
  note S = fetch_transitions_once [of success_events later_events]
  from F have "phase_of (run failure_events mount) = Failed"
    by (simp add: first_outcome_failure)
  then have p: "phase_of (run failure_events mount) \<noteq> Loading"
    by simp
  with F have a: "run (failure_events @ later_events) mount = run failure_events mount"
    by blast
  from F have q: "requests (run failure_events mount) = [''/api/v1/viz/3d-scene'']"
    by blast
  from F have t1: "remdups_adj (map phase_of (trace failure_events mount)) = [Loading, Failed]"
    by (simp add: first_outcome_failure)
  from S have t2: "remdups_adj (map phase_of (trace success_events mount)) = [Loading, Ready]"
    by (simp add: first_outcome_success)
  from S have t3: "phase_of (run success_events mount) = Ready"
    by (simp add: first_outcome_success)
  from S have t4: "sceneData (run success_events mount) = Payload example_payload"
    by (simp add: first_outcome_success)
  from p a q t1 t2 t3 t4 show ?thesis
    by (simp only: simp_thms)
qed

text \<open>
  Claim C4, as stated, fails for a request that succeeds with the body \<open>null\<close>: the
  \<open>try\<close> branch stores \<open>null\<close> and ends loading, and the component is then neither
  loading nor ready (no payload is present) nor failed (no error is set).
\<close>

theorem null_body_not_ready:
  "axios_get (Response 200 (Parsable Null)) = Fulfilled Null
   \<and> \<not> loading (run [Settle (Fulfilled Null)] mount)
   \<and> sceneData (run [Settle (Fulfilled Null)] mount) = Null
   \<and> error (run [Settle (Fulfilled Null)] mount) = None
   \<and> phase_of (run [Settle (Fulfilled Null)] mount) = NoPayload
   \<and> phase_of (run [Settle (Fulfilled Null)] mount) \<noteq> Ready
   \<and> phase_of (run [Settle (Fulfilled Null)] mount) \<noteq> Failed"
proof -
  have a: "axios_get (Response 200 (Parsable Null)) = Fulfilled Null"
    by simp
  have p: "phase_of (step (Settle (Fulfilled Null)) mount) = NoPayload"
    by (simp add: phase_fulfilled del: step.simps)
  have f: "\<not> loading (step (Settle (Fulfilled Null)) mount)
           \<and> sceneData (step (Settle (Fulfilled Null)) mount) = Null
           \<and> error (step (Settle (Fulfilled Null)) mount) = None"
    unfolding settled_fulfilled by simp
  from a p f show ?thesis
    unfolding single_run by (simp del: step.simps)
qed

text \<open>
  Claim C5, as the code has it. When the request is rejected (no response, or a status
  outside 200 to 299), for whatever reason, the page goes from the loading text
  straight to the one error text ``Failed to load asteroid data'': these two are all
  that \<open>App\<close> ever returns in such a run, in that order, the page shows the error text,
  and no state of the run has a sphere or a polyline. Even between the two setter calls
  of the \<open>catch\<close> branch \<open>App\<close> still returns the loading text.
\<close>

theorem failure_shows_error:
  "first_outcome evs = Some (Rejected err) \<Longrightarrow>
     App (run evs mount) = Div ''error'' ''Failed to load asteroid data''
     \<and> rendered (run evs mount) = Some (Div ''error'' ''Failed to load asteroid data'')
     \<and> remdups_adj (map App (trace evs mount))
         = [Div ''loading'' ''Loading asteroid data...'', Div ''error'' ''Failed to load asteroid data'']
     \<and> view_spheres (App (run evs mount)) = [] \<and> view_lines (App (run evs mount)) = []
     \<and> list_all (\<lambda>s. view_spheres (App s) = [] \<and> view_lines (App s) = []) (trace evs mount)
     \<and> App (setError (Some ''Failed to load asteroid data'') mount)
         = Div ''loading'' ''Loading asteroid data...''
     \<and> axios_get Network_failure = Rejected NetworkError
     \<and> (\<not> (200 \<le> status \<and> status < 300) \<longrightarrow>
          axios_get (Response status b) = Rejected (StatusError status))"
proof -
  assume h: "first_outcome evs = Some (Rejected err)"
  then have e: "run evs mount = step (Settle (Rejected err)) mount"
    by (simp add: run_mount)
  have r: "App (run evs mount) = Div ''error'' ''Failed to load asteroid data''"
    unfolding e by (rule App_rejected)
  have r': "rendered (run evs mount) = Some (Div ''error'' ''Failed to load asteroid data'')"
    unfolding e by (rule rendered_rejected)
  have t: "remdups_adj (map App (trace evs mount))
             = [Div ''loading'' ''Loading asteroid data...'', Div ''error'' ''Failed to load asteroid data'']"
    using h by (simp add: trace_mount App_mount App_rejected del: step.simps)
  have "set (map App (trace evs mount)) = set (remdups_adj (map App (trace evs mount)))"
    by simp
  then have m: "set (map App (trace evs mount))
                  = {Div ''loading'' ''Loading asteroid data...'', Div ''error'' ''Failed to load asteroid data''}"
    unfolding t by simp
  have g: "list_all (\<lambda>s. view_spheres (App s) = [] \<and> view_lines (App s) = []) (trace evs mount)"
    unfolding list_all_iff
  proof
    fix s assume "s \<in> set (trace evs mount)"
    then have "App s \<in> set (map App (trace evs mount))" by simp
    then have "App s = Div ''loading'' ''Loading asteroid data...''
               \<or> App s = Div ''error'' ''Failed to load asteroid data''"
      unfolding m by simp
    then show "view_spheres (App s) = [] \<and> view_lines (App s) = []" by auto
  qed
  have u: "App (setError (Some ''Failed to load asteroid data'') mount)
             = Div ''loading'' ''Loading asteroid data...''"
    by (simp add: App_def setError_def mount_def fetchSceneData_call_def initial_def)
  have x: "axios_get Network_failure = Rejected NetworkError
           \<and> (\<not> (200 \<le> status \<and> status < 300) \<longrightarrow>
                axios_get (Response status b) = Rejected (StatusError status))"
    by simp
  show ?thesis using r r' t g u x by simp
qed

theorem failure_shows_error_witness:
  "first_outcome failure_events = Some (Rejected NetworkError)
   \<and> App (run failure_events mount) = Div ''error'' ''Failed to load asteroid data''
   \<and> rendered (run failure_events mount) = Some (Div ''error'' ''Failed to load asteroid data'')
   \<and> view_spheres (App (run failure_events mount)) = []
   \<and> \<not> (200 \<le> (503::nat) \<and> (503::nat) < 300)
   \<and> axios_get (Response 503 (Unparsable ''Service Unavailable'')) = Rejected (StatusError 503)"
proof -
  note T = failure_shows_error [OF first_outcome_failure, of 503 "Unparsable ''Service Unavailable''"]
  have n: "\<not> (200 \<le> (503::nat) \<and> (503::nat) < 300)"
    by simp
  from T
  have 1: "App (run failure_events mount) = Div ''error'' ''Failed to load asteroid data''"
    and 2: "rendered (run failure_events mount) = Some (Div ''error'' ''Failed to load asteroid data'')"
    and 3: "view_spheres (App (run failure_events mount)) = []"
    by blast+
  from T n
  have 4: "axios_get (Response 503 (Unparsable ''Service Unavailable'')) = Rejected (StatusError 503)"
    by blast
  from first_outcome_failure 1 2 3 n 4 show ?thesis
    by (simp only: simp_thms)
qed

text \<open>
  Claim C5, as stated, fails for a deserialization failure: a 200 whose body does not
  parse is a fulfilment with the raw text as data. The \<open>try\<close> branch stores the text,
  no error is set, \<open>App\<close> returns the canvas, not the error text, and the call of
  \<open>AsteroidScene\<close> on the text throws: the page goes from the loading text to nothing.
\<close>

theorem unparsable_body_no_error_text:
  "axios_get (Response 200 (Unparsable ''<html>'')) = Fulfilled (Text ''<html>'')
   \<and> error (run [Settle (axios_get (Response 200 (Unparsable ''<html>'')))] mount) = None
   \<and> sceneData (run [Settle (axios_get (Response 200 (Unparsable ''<html>'')))] mount)
       = Text ''<html>''
   \<and> App (run [Settle (axios_get (Response 200 (Unparsable ''<html>'')))] mount)
       = CanvasDiv ''app'' (to_double 0, to_double 20, to_double 20) (to_double 60)
           (fixed_children @ [Broken TypeError])
   \<and> App (run [Settle (axios_get (Response 200 (Unparsable ''<html>'')))] mount)
       \<noteq> Div ''error'' ''Failed to load asteroid data''
   \<and> rendered (run [Settle (axios_get (Response 200 (Unparsable ''<html>'')))] mount) = None"
proof -
  have a: "axios_get (Response 200 (Unparsable ''<html>'')) = Fulfilled (Text ''<html>'')"
    by simp
  have f: "error (step (Settle (Fulfilled (Text ''<html>''))) mount) = None
           \<and> sceneData (step (Settle (Fulfilled (Text ''<html>''))) mount) = Text ''<html>''"
    unfolding settled_fulfilled by simp
  have v: "App (step (Settle (Fulfilled (Text ''<html>''))) mount)
             = CanvasDiv ''app'' (to_double 0, to_double 20, to_double 20) (to_double 60)
                 (fixed_children @ [Broken TypeError])"
    unfolding App_fulfilled by (simp add: scene_child_def)
  have r: "rendered (step (Settle (Fulfilled (Text ''<html>''))) mount) = None"
    by (rule rendered_not_payload [of _ TypeError]) simp_all
  have d: "App (step (Settle (Fulfilled (Text ''<html>''))) mount)
             \<noteq> Div ''error'' ''Failed to load asteroid data''"
    unfolding v by simp
  from f v d r show ?thesis
    unfolding a single_run by (simp only: simp_thms)
qed

text \<open>
  Claim C10, as the code has it. In every state a mounted component can reach: while
  loading, neither the payload nor the error is set; they are never both set, and the
  error is never set while loading. A fulfilled request stores the response data,
  which may be null, and leaves the error null; a rejected one sets the error and
  leaves the payload null. So, once no longer loading, exactly one of the two is set
  unless the request was fulfilled with null. The two setter calls of a branch of
  \<open>fetchSceneData\<close> run in one task and are applied together; even between them the
  payload and the error are not both set.
\<close>

theorem flags_exclusive:
  "(loading (run evs mount) \<longrightarrow>
      sceneData (run evs mount) = Null \<and> error (run evs mount) = None)
   \<and> (\<not> loading (run evs mount) \<and> first_outcome evs \<noteq> Some (Fulfilled Null) \<longrightarrow>
      (sceneData (run evs mount) = Null) \<noteq> (error (run evs mount) = None))
   \<and> \<not> (sceneData (run evs mount) \<noteq> Null \<and> error (run evs mount) \<noteq> None)
   \<and> \<not> (loading (run evs mount) \<and> error (run evs mount) \<noteq> None)
   \<and> (first_outcome evs = Some (Fulfilled v) \<longrightarrow>
        \<not> loading (run evs mount) \<and> sceneData (run evs mount) = v \<and> error (run evs mount) = None)
   \<and> (first_outcome evs = Some (Rejected err) \<longrightarrow>
        \<not> loading (run evs mount) \<and> sceneData (run evs mount) = Null
        \<and> error (run evs mount) = Some ''Failed to load asteroid data'')
   \<and> (first_outcome evs = None \<longrightarrow> loading (run evs mount))
   \<and> error (setSceneData w mount) = None
   \<and> sceneData (setError (Some ''Failed to load asteroid data'') mount) = Null"
proof -
  have i1: "error (setSceneData w mount) = None"
    by (simp add: setSceneData_def mount_def fetchSceneData_call_def initial_def)
  have i2: "sceneData (setError (Some ''Failed to load asteroid data'') mount) = Null"
    by (simp add: setError_def mount_def fetchSceneData_call_def initial_def)
  have main: "(loading (run evs mount) \<longrightarrow>
      sceneData (run evs mount) = Null \<and> error (run evs mount) = None)
   \<and> (\<not> loading (run evs mount) \<and> first_outcome evs \<noteq> Some (Fulfilled Null) \<longrightarrow>
      (sceneData (run evs mount) = Null) \<noteq> (error (run evs mount) = None))
   \<and> \<not> (sceneData (run evs mount) \<noteq> Null \<and> error (run evs mount) \<noteq> None)
   \<and> \<not> (loading (run evs mount) \<and> error (run evs mount) \<noteq> None)
   \<and> (first_outcome evs = Some (Fulfilled v) \<longrightarrow>
        \<not> loading (run evs mount) \<and> sceneData (run evs mount) = v \<and> error (run evs mount) = None)
   \<and> (first_outcome evs = Some (Rejected err) \<longrightarrow>
        \<not> loading (run evs mount) \<and> sceneData (run evs mount) = Null
        \<and> error (run evs mount) = Some ''Failed to load asteroid data'')
   \<and> (first_outcome evs = None \<longrightarrow> loading (run evs mount))"
  proof (cases "first_outcome evs")
    case None
    then have "run evs mount = mount" by (simp add: run_mount)
    then show ?thesis
      using None by (simp add: mount_def fetchSceneData_call_def initial_def)
  next
    case (Some r)
    show ?thesis
    proof (cases r)
      case (Fulfilled v')
      with Some have "run evs mount = step (Settle (Fulfilled v')) mount"
        by (simp add: run_mount)
      then show ?thesis
        unfolding settled_fulfilled using Some Fulfilled by auto
    next
      case (Rejected err')
      with Some have "run evs mount = step (Settle (Rejected err')) mount"
        by (simp add: run_mount)
      then show ?thesis
        unfolding resume_rejected using Some Rejected by simp
    qed
  qed
  from main i1 i2 show ?thesis
    by blast
qed

theorem flags_exclusive_witness:
  "first_outcome [] = None
   \<and> loading (run [] mount)
   \<and> sceneData (run [] mount) = Null \<and> error (run [] mount) = None
   \<and> \<not> loading (run success_events mount)
   \<and> first_outcome success_events \<noteq> Some (Fulfilled Null)
   \<and> sceneData (run success_events mount) = Payload example_payload
   \<and> error (run success_events mount) = None
   \<and> \<not> loading (run failure_events mount)
   \<and> sceneData (run failure_events mount) = Null
   \<and> error (run failure_events mount) = Some ''Failed to load asteroid data''"
proof -
  have n: "first_outcome [] = None"
    by simp
  have d: "first_outcome success_events \<noteq> Some (Fulfilled Null)"
    by (simp add: first_outcome_success)
  note N = flags_exclusive [of "[]"]
  note S = flags_exclusive [of success_events "Payload example_payload"]
  note F = flags_exclusive [of failure_events _ NetworkError]
  from N n have 1: "loading (run [] mount)"
    by blast
  with N have 2: "sceneData (run [] mount) = Null \<and> error (run [] mount) = None"
    by blast
  from S first_outcome_success
  have 3: "\<not> loading (run success_events mount)
           \<and> sceneData (run success_events mount) = Payload example_payload
           \<and> error (run success_events mount) = None"
    by blast
  from F first_outcome_failure
  have 4: "\<not> loading (run failure_events mount)
           \<and> sceneData (run failure_events mount) = Null
           \<and> error (run failure_events mount) = Some ''Failed to load asteroid data''"
    by blast
  from n d 1 2 3 4 show ?thesis
    by (simp only: simp_thms)
qed

text \<open>
  Claim C10, as stated, fails for a request that succeeds with the body \<open>null\<close>: the
  fetch has settled, loading has ended, and neither the payload nor the error is set.
\<close>

theorem null_body_neither_set:
  "first_outcome [Settle (axios_get (Response 200 (Parsable Null)))] = Some (Fulfilled Null)
   \<and> \<not> loading (run [Settle (axios_get (Response 200 (Parsable Null)))] mount)
   \<and> sceneData (run [Settle (axios_get (Response 200 (Parsable Null)))] mount) = Null
   \<and> error (run [Settle (axios_get (Response 200 (Parsable Null)))] mount) = None
   \<and> (sceneData (run [Settle (axios_get (Response 200 (Parsable Null)))] mount) = Null)
       = (error (run [Settle (axios_get (Response 200 (Parsable Null)))] mount) = None)"
proof -
  have a: "axios_get (Response 200 (Parsable Null)) = Fulfilled Null"
    by simp
  have f: "\<not> loading (step (Settle (Fulfilled Null)) mount)
           \<and> sceneData (step (Settle (Fulfilled Null)) mount) = Null
           \<and> error (step (Settle (Fulfilled Null)) mount) = None"
    unfolding settled_fulfilled by simp
  have o: "first_outcome [Settle (Fulfilled Null)] = Some (Fulfilled Null)"
    by simp
  from f o show ?thesis
    unfolding a single_run by (simp only: simp_thms)
qed


section \<open>Rounding error\<close>

text \<open>
  Rounding a rational in the normal range of binary64 changes it by at most the fraction
  \<open>2 ^ -53\<close> of itself. The bounds below follow that through the exponent computation
  and through repeated addition of one constant.
\<close>

declare bitlen.simps [simp del]

lemma pow2_powi: "pow2 e = 2 powi e"
  by (simp add: pow2_def power_int_def field_simps)

lemma pow2_pos: "0 < pow2 e"
  by (simp add: pow2_powi)

lemma pow2_add: "pow2 (a + b) = pow2 a * pow2 b"
  by (simp add: pow2_powi power_int_add)

lemma pow2_less: "a < b \<Longrightarrow> pow2 a < pow2 b"
  by (simp add: pow2_powi power_int_strict_increasing)

lemma pow2_le: "a \<le> b \<Longrightarrow> pow2 a \<le> pow2 b"
  by (simp add: pow2_powi power_int_increasing)

lemma pow2_less_cancel: "pow2 a < pow2 b \<Longrightarrow> a < b"
  using pow2_le [of b a] by (cases "a < b") auto

lemma bitlen_pos: "0 < n \<Longrightarrow> 0 < bitlen n"
proof (induction n rule: bitlen.induct)
  case (1 n)
  show ?case
  proof (cases "0 < n div 2")
    case True
    with 1 have "0 < bitlen (n div 2)" by simp
    with 1 show ?thesis by (simp add: bitlen.simps [of n])
  next
    case False
    then have "bitlen (n div 2) = 0" by (simp add: bitlen.simps [of "n div 2"])
    with 1 show ?thesis by (simp add: bitlen.simps [of n])
  qed
qed

lemma bitlen_bounds:
  "0 < n \<Longrightarrow> pow2 (bitlen n - 1) \<le> of_int n \<and> of_int n < pow2 (bitlen n)"
proof (induction n rule: bitlen.induct)
  case (1 n)
  have b: "bitlen n = 1 + bitlen (n div 2)"
    using 1 by (simp add: bitlen.simps [of n])
  show ?case
  proof (cases "0 < n div 2")
    case False
    with 1 have n1: "n = 1" by linarith
    have "bitlen (1 div 2) = 0" by (simp add: bitlen.simps [of 0])
    with b n1 have "bitlen n = 1" by simp
    with n1 show ?thesis by (simp add: pow2_def)
  next
    case True
    with 1 have ih: "pow2 (bitlen (n div 2) - 1) \<le> of_int (n div 2)"
      "of_int (n div 2) < pow2 (bitlen (n div 2))"
      by simp_all
    let ?b = "bitlen (n div 2)"
    have twice: "pow2 (1 + k) = 2 * pow2 k" for k
      by (simp add: pow2_add) (simp add: pow2_def)
    have lo: "2 * (n div 2) \<le> n" by linarith
    have "pow2 (bitlen n - 1) = 2 * pow2 (?b - 1)"
      using twice [of "?b - 1"] by (simp add: b)
    also have "\<dots> \<le> 2 * of_int (n div 2)" using ih by simp
    also have "\<dots> \<le> of_int n"
      using lo by (metis of_int_le_iff of_int_mult of_int_numeral)
    finally have L: "pow2 (bitlen n - 1) \<le> of_int n" .
    from True have bp: "0 < ?b" by (rule bitlen_pos)
    then have "pow2 ?b = 2 ^ nat ?b" by (simp add: pow2_def)
    then have "pow2 ?b = of_int (2 ^ nat ?b)" by simp
    with ih have "(of_int (n div 2) :: rat) < of_int (2 ^ nat ?b)" by simp
    then have "n div 2 < 2 ^ nat ?b" by (simp only: of_int_less_iff)
    then have "n < 2 * 2 ^ nat ?b" by linarith
    then have "(of_int n :: rat) < of_int (2 * 2 ^ nat ?b)" by (simp only: of_int_less_iff)
    also have "\<dots> = 2 * pow2 ?b" using bp by (simp add: pow2_def)
    also have "\<dots> = pow2 (bitlen n)" using twice [of ?b] by (simp add: b)
    finally have U: "of_int n < pow2 (bitlen n)" .
    from L U show ?thesis by simp
  qed
qed

lemma exponent_of_bounds:
  assumes q: "0 < q"
  shows "pow2 (exponent_of q) \<le> q \<and> q < pow2 (exponent_of q + 1)"
proof -
  obtain n d where nd: "quotient_of q = (n, d)"
    by (cases "quotient_of q") auto
  then have d: "0 < d" by (rule quotient_of_denom_pos)
  from nd have qe: "q = of_int n / of_int d" by (rule quotient_of_div)
  with q d have n: "0 < n" by (simp add: zero_less_divide_iff)
  let ?e0 = "bitlen n - bitlen d"
  note bn = bitlen_bounds [OF n]
  note bd = bitlen_bounds [OF d]
  have dpos: "(0::rat) < of_int d" using d by simp
  have lo: "pow2 (?e0 - 1) < q"
  proof -
    have "pow2 (?e0 - 1) * of_int d < pow2 (?e0 - 1) * pow2 (bitlen d)"
      using bd pow2_pos by (simp add: mult_strict_left_mono)
    also have "\<dots> = pow2 (bitlen n - 1)"
      by (simp flip: pow2_add)
    also have "\<dots> \<le> of_int n" using bn by simp
    finally have "pow2 (?e0 - 1) * of_int d < of_int n" .
    with dpos show ?thesis by (simp add: qe pos_less_divide_eq)
  qed
  have hi: "q < pow2 (?e0 + 1)"
  proof -
    have "of_int n < pow2 (bitlen n)" using bn by simp
    also have "\<dots> = pow2 (?e0 + 1) * pow2 (bitlen d - 1)"
      by (simp flip: pow2_add)
    also have "\<dots> \<le> pow2 (?e0 + 1) * of_int d"
      using bd pow2_pos [of "?e0 + 1"] by (simp add: mult_left_mono)
    finally have "of_int n < pow2 (?e0 + 1) * of_int d" .
    with dpos show ?thesis by (simp add: qe pos_divide_less_eq)
  qed
  have e: "exponent_of q = (if pow2 ?e0 \<le> q then ?e0 else ?e0 - 1)"
    by (simp add: exponent_of_def nd)
  show ?thesis
  proof (cases "pow2 ?e0 \<le> q")
    case True
    with e hi show ?thesis by simp
  next
    case False
    with e lo show ?thesis by simp
  qed
qed

lemma round_half_even_close: "\<bar>of_int (round_half_even m) - m\<bar> \<le> 1 / 2"
proof -
  have "of_int \<lfloor>m\<rfloor> \<le> m" "m < of_int \<lfloor>m\<rfloor> + 1"
    by linarith+
  then show ?thesis
    by (auto simp add: round_half_even_def Let_def)
qed

lemma round_pos_error:
  assumes q: "pow2 (- 1022) \<le> q"
  shows "\<bar>round_pos q - q\<bar> \<le> q * pow2 (- 53)"
proof -
  from q pow2_pos [of "- 1022"] have qp: "0 < q" by linarith
  let ?e = "exponent_of q"
  note eb = exponent_of_bounds [OF qp]
  from q eb have "pow2 (- 1022) < pow2 (?e + 1)" by linarith
  then have "- 1022 < ?e + 1" by (rule pow2_less_cancel)
  then have m: "max ?e (- 1022) = ?e" by simp
  let ?ulp = "pow2 (?e - 52)"
  have up: "0 < ?ulp" by (rule pow2_pos)
  have r: "round_pos q = of_int (round_half_even (q / ?ulp)) * ?ulp"
    by (simp add: round_pos_def m Let_def)
  have "round_pos q - q = (of_int (round_half_even (q / ?ulp)) - q / ?ulp) * ?ulp"
    using up by (simp add: r field_simps)
  then have "\<bar>round_pos q - q\<bar> = \<bar>of_int (round_half_even (q / ?ulp)) - q / ?ulp\<bar> * ?ulp"
    using up by (simp add: abs_mult)
  also have "\<dots> \<le> (1 / 2) * ?ulp"
    using round_half_even_close [of "q / ?ulp"] up by (simp add: mult_right_mono)
  also have "\<dots> = pow2 ?e * pow2 (- 53)"
  proof -
    have "pow2 (?e - 52) = pow2 (?e + (- 53) + 1)" by simp
    also have "\<dots> = pow2 ?e * pow2 (- 53) * pow2 1" by (simp only: pow2_add)
    also have "pow2 1 = 2" by (simp add: pow2_def)
    finally show ?thesis by simp
  qed
  also have "\<dots> \<le> q * pow2 (- 53)"
    using eb pow2_pos [of "- 53"] by (simp add: mult_right_mono)
  finally show ?thesis .
qed

lemma to_double_error:
  assumes lo: "pow2 (- 1022) \<le> q" and hi: "q \<le> pow2 1000"
  shows "\<exists>r. to_double q = Finite r \<and> 0 < r \<and> \<bar>r - q\<bar> \<le> q * pow2 (- 53)"
proof -
  from lo pow2_pos [of "- 1022"] have qp: "0 < q" by linarith
  let ?r = "round_pos q"
  note err = round_pos_error [OF lo]
  have small: "pow2 (- 53) < 1"
    using pow2_less [of "- 53" 0] by (simp add: pow2_def)
  have "q * pow2 (- 53) < q * 1"
    using qp small by (simp only: mult_strict_left_mono)
  with err have rp: "0 < ?r" and ru: "?r < 2 * q" by linarith+
  from ru hi have "?r < 2 * pow2 1000" by linarith
  also have "\<dots> = pow2 1001"
  proof -
    have "pow2 1001 = pow2 (1 + 1000)" by simp
    also have "\<dots> = pow2 1 * pow2 1000" by (simp only: pow2_add)
    also have "pow2 1 = 2" by (simp add: pow2_def)
    finally show ?thesis by simp
  qed
  finally have "?r < pow2 1001" .
  with exponent_of_bounds [OF rp] have "pow2 (exponent_of ?r) < pow2 1001" by linarith
  then have "exponent_of ?r < 1001" by (rule pow2_less_cancel)
  then have "\<not> 1024 \<le> exponent_of ?r" by simp
  with qp have "to_double q = Finite ?r"
    by (simp add: to_double_def Let_def)
  with rp err show ?thesis by blast
qed

lemma increment_range:
  "pow2 (- 1022) \<le> (1152921504606847 / 1152921504606846976 :: rat)"
proof -
  have "pow2 (- 1022) \<le> pow2 (- 10)" by (rule pow2_le) simp
  also have "pow2 (- 10) = 1 / 1024" by (simp add: pow2_def)
  also have "(1 / 1024 :: rat) \<le> 1152921504606847 / 1152921504606846976" by simp
  finally show ?thesis .
qed

lemma sum_range: "(18014398509481985 :: rat) * (1152921504606847 / 1152921504606846976) \<le> pow2 1000"
proof -
  have "(18014398509481985 :: rat) * (1152921504606847 / 1152921504606846976) \<le> 2 ^ 55" by simp
  also have "\<dots> = pow2 55" by (simp add: pow2_def)
  also have "\<dots> \<le> pow2 1000" by (rule pow2_le) simp
  finally show ?thesis .
qed

lemma pow2_m53: "pow2 (- 53) = 1 / 9007199254740992"
  by (simp add: pow2_def)

lemma many_adds:
  fixes c u :: rat
  defines "c \<equiv> 1152921504606847 / 1152921504606846976"
    and "u \<equiv> 1 / 9007199254740992"
  assumes k: "k \<le> 9007199254740992"
  shows "\<exists>r. ((\<lambda>r. js_add r (Finite c)) ^^ k) (Finite 0) = Finite r
             \<and> 0 \<le> r \<and> \<bar>r - of_nat k * c\<bar> \<le> of_nat k * of_nat k * (u * c)"
  using k
proof (induction k)
  case 0
  show ?case by simp
next
  case (Suc k)
  then have "k \<le> 9007199254740992" by simp
  with Suc.IH obtain r where
    f: "((\<lambda>r. js_add r (Finite c)) ^^ k) (Finite 0) = Finite r"
    and r0: "0 \<le> r"
    and e: "\<bar>r - of_nat k * c\<bar> \<le> of_nat k * of_nat k * (u * c)"
    by blast
  define K :: rat where "K = of_nat k"
  have K0: "0 \<le> K" by (simp add: K_def)
  have "(of_nat k :: rat) \<le> of_nat 9007199254740992"
    using \<open>k \<le> 9007199254740992\<close> by (simp only: of_nat_le_iff)
  then have KU: "K \<le> 9007199254740992" by (simp add: K_def)
  have c0: "0 < c" by (simp add: c_def)
  have u0: "0 < u" by (simp add: u_def)
  have "K * u \<le> 1" using KU by (simp add: u_def)
  then have "K * (K * u) \<le> K * 1" using K0 by (rule mult_left_mono)
  then have t1: "K * K * u \<le> K" by (simp add: mult.assoc)
  then have "K * K * u * c \<le> K * c" using c0 by (simp add: mult_right_mono)
  then have t2: "K * K * (u * c) \<le> K * c" by (simp add: mult.assoc)
  from e have e': "\<bar>r - K * c\<bar> \<le> K * K * (u * c)" by (simp add: K_def)
  with t2 have rb: "r \<le> 2 * K * c" by linarith
  have lo: "pow2 (- 1022) \<le> r + c"
    using increment_range r0 by (simp add: c_def)
  have "r + c \<le> (2 * K + 1) * c" using rb by (simp add: algebra_simps)
  also have "\<dots> \<le> 18014398509481985 * c"
    using KU c0 by (simp add: mult_right_mono)
  also have "\<dots> \<le> pow2 1000" using sum_range by (simp add: c_def)
  finally have hi: "r + c \<le> pow2 1000" .
  from to_double_error [OF lo hi] obtain r' where
    d: "to_double (r + c) = Finite r'" and r'0: "0 < r'"
    and e2: "\<bar>r' - (r + c)\<bar> \<le> (r + c) * u"
    by (auto simp add: pow2_m53 u_def)
  have step: "((\<lambda>r. js_add r (Finite c)) ^^ Suc k) (Finite 0) = Finite r'"
    by (simp add: f d)
  have "r + c \<le> K * c + K * K * (u * c) + c" using e' by linarith
  then have "(r + c) * u \<le> (K * c + K * K * (u * c) + c) * u"
    using u0 by (simp add: mult_right_mono)
  also have "\<dots> = (K + K * K * u + 1) * (u * c)" by (simp add: algebra_simps)
  also have "\<dots> \<le> (K + K + 1) * (u * c)"
    using t1 u0 c0 by (simp add: mult_right_mono)
  finally have e3: "(r + c) * u \<le> (K + K + 1) * (u * c)" .
  have "\<bar>r' - (K + 1) * c\<bar> \<le> \<bar>r' - (r + c)\<bar> + \<bar>r - K * c\<bar>"
    by (simp add: algebra_simps)
  also have "\<dots> \<le> (K + K + 1) * (u * c) + K * K * (u * c)"
    using e2 e3 e' by linarith
  also have "\<dots> = (K + 1) * (K + 1) * (u * c)" by (simp add: algebra_simps)
  finally have "\<bar>r' - of_nat (Suc k) * c\<bar> \<le> of_nat (Suc k) * of_nat (Suc k) * (u * c)"
    by (simp add: K_def add.commute)
  with step r'0 show ?case by (intro exI [of _ r']) simp
qed

lemma adds_near_product:
  assumes k: "k \<le> 9007199254740992"
  shows "\<exists>r. ((\<lambda>r. js_add r (Finite (1152921504606847 / 1152921504606846976))) ^^ k) (Finite 0)
               = Finite r
             \<and> \<bar>r - of_nat k / 1000\<bar> \<le> (of_nat k)\<^sup>2 / 2 ^ 61"
proof -
  define K :: rat where "K = of_nat k"
  from many_adds [OF k] obtain r where
    f: "((\<lambda>r. js_add r (Finite (1152921504606847 / 1152921504606846976))) ^^ k) (Finite 0)
          = Finite r"
    and e: "\<bar>r - K * (1152921504606847 / 1152921504606846976)\<bar>
              \<le> K * K * (1 / 9007199254740992 * (1152921504606847 / 1152921504606846976))"
    unfolding K_def by blast
  have K0: "0 \<le> K" by (simp add: K_def)
  have "(of_nat k :: rat) \<le> of_nat (k * k)"
    by (simp only: of_nat_le_iff) (cases k; simp)
  then have KK: "K \<le> K * K" by (simp add: K_def)
  have KK0: "0 \<le> K * K" using K0 by simp
  have "K * K * (1 / 9007199254740992 * (1152921504606847 / 1152921504606846976))
          \<le> K * K * (1 / 2 ^ 62)"
    using KK0 by (intro mult_left_mono) simp_all
  with e have e1: "\<bar>r - K * (1152921504606847 / 1152921504606846976)\<bar> \<le> K * K * (1 / 2 ^ 62)"
    by linarith
  have "\<bar>K * (1152921504606847 / 1152921504606846976) - K / 1000\<bar>
          = K * (3 / 144115188075855872000)"
    using K0 by (simp add: abs_if field_simps)
  also have "\<dots> \<le> K * (1 / 2 ^ 62)"
    using K0 by (intro mult_left_mono) simp_all
  also have "\<dots> \<le> K * K * (1 / 2 ^ 62)"
    using KK by (intro mult_right_mono) simp_all
  finally have e2: "\<bar>K * (1152921504606847 / 1152921504606846976) - K / 1000\<bar>
                      \<le> K * K * (1 / 2 ^ 62)" .
  have "\<bar>r - K / 1000\<bar> \<le> \<bar>r - K * (1152921504606847 / 1152921504606846976)\<bar>
                             + \<bar>K * (1152921504606847 / 1152921504606846976) - K / 1000\<bar>"
    by linarith
  also have "\<dots> \<le> K * K * (1 / 2 ^ 62) + K * K * (1 / 2 ^ 62)"
    using e1 e2 by linarith
  also have "\<dots> = K\<^sup>2 / 2 ^ 61"
    by (simp add: power2_eq_square)
  finally have "\<bar>r - of_nat k / 1000\<bar> \<le> (of_nat k)\<^sup>2 / 2 ^ 61"
    by (simp add: K_def)
  with f show ?thesis by blast
qed


section \<open>The frame loop\<close>

text \<open>
  The literal \<open>0.001\<close> of the source is the double nearest to 1/1000, and the
  rotation after each of the first ten frames is the correctly rounded sum of the
  rotation before it and that double. Each line below is one such addition (or one
  multiplication by the frame count), evaluated from the definitions.
\<close>

lemma to_double_increment: "to_double (1 / 1000) = Finite (1152921504606847 / 1152921504606846976)"
  by code_simp

lemma to_double_2: "to_double 2 = Finite 2"
  by code_simp

lemma to_double_3: "to_double 3 = Finite 3"
  by code_simp

lemma to_double_4: "to_double 4 = Finite 4"
  by code_simp

lemma to_double_5: "to_double 5 = Finite 5"
  by code_simp

lemma to_double_6: "to_double 6 = Finite 6"
  by code_simp

lemma to_double_7: "to_double 7 = Finite 7"
  by code_simp

lemma to_double_8: "to_double 8 = Finite 8"
  by code_simp

lemma to_double_9: "to_double 9 = Finite 9"
  by code_simp

lemma to_double_10: "to_double 10 = Finite 10"
  by code_simp

lemma frame_add_0:
  "js_add (Finite (0)) (Finite (1152921504606847 / 1152921504606846976))
     = Finite (1152921504606847 / 1152921504606846976)"
  by code_simp

lemma frame_add_1:
  "js_add (Finite (1152921504606847 / 1152921504606846976)) (Finite (1152921504606847 / 1152921504606846976))
     = Finite (1152921504606847 / 576460752303423488)"
  by code_simp

lemma frame_add_2:
  "js_add (Finite (1152921504606847 / 576460752303423488)) (Finite (1152921504606847 / 1152921504606846976))
     = Finite (3458764513820541 / 1152921504606846976)"
  by code_simp

lemma frame_add_3:
  "js_add (Finite (3458764513820541 / 1152921504606846976)) (Finite (1152921504606847 / 1152921504606846976))
     = Finite (1152921504606847 / 288230376151711744)"
  by code_simp

lemma frame_add_4:
  "js_add (Finite (1152921504606847 / 288230376151711744)) (Finite (1152921504606847 / 1152921504606846976))
     = Finite (5764607523034235 / 1152921504606846976)"
  by code_simp

lemma frame_add_5:
  "js_add (Finite (5764607523034235 / 1152921504606846976)) (Finite (1152921504606847 / 1152921504606846976))
     = Finite (3458764513820541 / 576460752303423488)"
  by code_simp

lemma frame_add_6:
  "js_add (Finite (3458764513820541 / 576460752303423488)) (Finite (1152921504606847 / 1152921504606846976))
     = Finite (8070450532247929 / 1152921504606846976)"
  by code_simp

lemma frame_add_7:
  "js_add (Finite (8070450532247929 / 1152921504606846976)) (Finite (1152921504606847 / 1152921504606846976))
     = Finite (1152921504606847 / 144115188075855872)"
  by code_simp

lemma frame_add_8:
  "js_add (Finite (1152921504606847 / 144115188075855872)) (Finite (1152921504606847 / 1152921504606846976))
     = Finite (1297036692682703 / 144115188075855872)"
  by code_simp

lemma frame_add_9:
  "js_add (Finite (1297036692682703 / 144115188075855872)) (Finite (1152921504606847 / 1152921504606846976))
     = Finite (1441151880758559 / 144115188075855872)"
  by code_simp

lemma times_0:
  "js_mul (Finite 0) (Finite (1152921504606847 / 1152921504606846976))
     = Finite (0)"
  by code_simp

lemma times_1:
  "js_mul (Finite 1) (Finite (1152921504606847 / 1152921504606846976))
     = Finite (1152921504606847 / 1152921504606846976)"
  by code_simp

lemma times_2:
  "js_mul (Finite 2) (Finite (1152921504606847 / 1152921504606846976))
     = Finite (1152921504606847 / 576460752303423488)"
  by code_simp

lemma times_3:
  "js_mul (Finite 3) (Finite (1152921504606847 / 1152921504606846976))
     = Finite (3458764513820541 / 1152921504606846976)"
  by code_simp

lemma times_4:
  "js_mul (Finite 4) (Finite (1152921504606847 / 1152921504606846976))
     = Finite (1152921504606847 / 288230376151711744)"
  by code_simp

lemma times_5:
  "js_mul (Finite 5) (Finite (1152921504606847 / 1152921504606846976))
     = Finite (5764607523034235 / 1152921504606846976)"
  by code_simp

lemma times_6:
  "js_mul (Finite 6) (Finite (1152921504606847 / 1152921504606846976))
     = Finite (3458764513820541 / 576460752303423488)"
  by code_simp

lemma times_7:
  "js_mul (Finite 7) (Finite (1152921504606847 / 1152921504606846976))
     = Finite (8070450532247929 / 1152921504606846976)"
  by code_simp

lemma times_8:
  "js_mul (Finite 8) (Finite (1152921504606847 / 1152921504606846976))
     = Finite (1152921504606847 / 144115188075855872)"
  by code_simp

lemma times_9:
  "js_mul (Finite 9) (Finite (1152921504606847 / 1152921504606846976))
     = Finite (1297036692682703 / 144115188075855872)"
  by code_simp

lemma times_10:
  "js_mul (Finite 10) (Finite (1152921504606847 / 1152921504606846976))
     = Finite (5764607523034235 / 576460752303423488)"
  by code_simp

lemma ten_adds:
  "((\<lambda>r. js_add r (Finite (1152921504606847 / 1152921504606846976))) ^^ 10) (Finite 0)
     = Finite (1441151880758559 / 144115188075855872)"
  by (simp only: numeral_eq_Suc pred_numeral_simps funpow.simps o_apply id_apply Num.BitM.simps
      frame_add_0 frame_add_1 frame_add_2 frame_add_3 frame_add_4 frame_add_5 frame_add_6 frame_add_7 frame_add_8 frame_add_9)

text \<open>Up to nine additions give what one multiplication by the count gives.\<close>

lemma few_adds:
  "k \<le> 9 \<Longrightarrow>
     ((\<lambda>r. js_add r (Finite (1152921504606847 / 1152921504606846976))) ^^ k) (Finite 0)
       = js_mul (to_double (of_nat k)) (Finite (1152921504606847 / 1152921504606846976))"
proof -
  assume "k \<le> 9"
  then consider "k = 0" | "k = 1" | "k = 2" | "k = 3" | "k = 4"
    | "k = 5" | "k = 6" | "k = 7" | "k = 8" | "k = 9"
    by atomize_elim arith
  then show ?thesis
  proof cases
    case 1
    have "js_mul (to_double (of_nat 0)) (Finite (1152921504606847 / 1152921504606846976)) = Finite 0"
      by (simp only: of_nat_0 to_double_0 times_0)
    with 1 show ?thesis
      by (simp del: js_mul.simps)
  next
    case 2
    have "js_mul (to_double (of_nat 1)) (Finite (1152921504606847 / 1152921504606846976))
            = Finite (1152921504606847 / 1152921504606846976)"
      by (simp only: of_nat_1 to_double_1 times_1)
    with 2 show ?thesis
      by (simp add: frame_add_0 del: js_mul.simps js_add.simps)
  next
    case 3
    have "((\<lambda>r. js_add r (Finite (1152921504606847 / 1152921504606846976))) ^^ 2) (Finite 0)
            = Finite (1152921504606847 / 576460752303423488)"
      by (simp only: numeral_eq_Suc pred_numeral_simps funpow.simps o_apply id_apply Num.BitM.simps
          frame_add_0 frame_add_1)
    with 3 show ?thesis
      by (simp only: of_nat_numeral to_double_2 times_2)
  next
    case 4
    have "((\<lambda>r. js_add r (Finite (1152921504606847 / 1152921504606846976))) ^^ 3) (Finite 0)
            = Finite (3458764513820541 / 1152921504606846976)"
      by (simp only: numeral_eq_Suc pred_numeral_simps funpow.simps o_apply id_apply Num.BitM.simps
          frame_add_0 frame_add_1 frame_add_2)
    with 4 show ?thesis
      by (simp only: of_nat_numeral to_double_3 times_3)
  next
    case 5
    have "((\<lambda>r. js_add r (Finite (1152921504606847 / 1152921504606846976))) ^^ 4) (Finite 0)
            = Finite (1152921504606847 / 288230376151711744)"
      by (simp only: numeral_eq_Suc pred_numeral_simps funpow.simps o_apply id_apply Num.BitM.simps
          frame_add_0 frame_add_1 frame_add_2 frame_add_3)
    with 5 show ?thesis
      by (simp only: of_nat_numeral to_double_4 times_4)
  next
    case 6
    have "((\<lambda>r. js_add r (Finite (1152921504606847 / 1152921504606846976))) ^^ 5) (Finite 0)
            = Finite (5764607523034235 / 1152921504606846976)"
      by (simp only: numeral_eq_Suc pred_numeral_simps funpow.simps o_apply id_apply Num.BitM.simps
          frame_add_0 frame_add_1 frame_add_2 frame_add_3 frame_add_4)
    with 6 show ?thesis
      by (simp only: of_nat_numeral to_double_5 times_5)
  next
    case 7
    have "((\<lambda>r. js_add r (Finite (1152921504606847 / 1152921504606846976))) ^^ 6) (Finite 0)
            = Finite (3458764513820541 / 576460752303423488)"
      by (simp only: numeral_eq_Suc pred_numeral_simps funpow.simps o_apply id_apply Num.BitM.simps
          frame_add_0 frame_add_1 frame_add_2 frame_add_3 frame_add_4 frame_add_5)
    with 7 show ?thesis
      by (simp only: of_nat_numeral to_double_6 times_6)
  next
    case 8
    have "((\<lambda>r. js_add r (Finite (1152921504606847 / 1152921504606846976))) ^^ 7) (Finite 0)
            = Finite (8070450532247929 / 1152921504606846976)"
      by (simp only: numeral_eq_Suc pred_numeral_simps funpow.simps o_apply id_apply Num.BitM.simps
          frame_add_0 frame_add_1 frame_add_2 frame_add_3 frame_add_4 frame_add_5 frame_add_6)
    with 8 show ?thesis
      by (simp only: of_nat_numeral to_double_7 times_7)
  next
    case 9
    have "((\<lambda>r. js_add r (Finite (1152921504606847 / 1152921504606846976))) ^^ 8) (Finite 0)
            = Finite (1152921504606847 / 144115188075855872)"
      by (simp only: numeral_eq_Suc pred_numeral_simps funpow.simps o_apply id_apply Num.BitM.simps
          frame_add_0 frame_add_1 frame_add_2 frame_add_3 frame_add_4 frame_add_5 frame_add_6 frame_add_7)
    with 9 show ?thesis
      by (simp only: of_nat_numeral to_double_8 times_8)
  next
    case 10
    have "((\<lambda>r. js_add r (Finite (1152921504606847 / 1152921504606846976))) ^^ 9) (Finite 0)
            = Finite (1297036692682703 / 144115188075855872)"
      by (simp only: numeral_eq_Suc pred_numeral_simps funpow.simps o_apply id_apply Num.BitM.simps
          frame_add_0 frame_add_1 frame_add_2 frame_add_3 frame_add_4 frame_add_5 frame_add_6 frame_add_7 frame_add_8)
    with 10 show ?thesis
      by (simp only: of_nat_numeral to_double_9 times_9)
  qed
qed

lemma callback_attached:
  "groupRef s = Some g \<Longrightarrow>
     useFrame_callback d st s
       = s\<lparr>groupRef := Some (g\<lparr>rotation_y := js_add (rotation_y g) (to_double (1 / 1000))\<rparr>)\<rparr>"
  by (simp add: useFrame_callback_def)

lemma run_frames_attached:
  "groupRef s = Some g \<Longrightarrow>
     run_frames d sts s
       = s\<lparr>groupRef := Some (g\<lparr>rotation_y :=
             ((\<lambda>r. js_add r (to_double (1 / 1000))) ^^ length sts) (rotation_y g)\<rparr>)\<rparr>"
proof (induction sts arbitrary: s g)
  case Nil
  then show ?case by simp
next
  case (Cons st sts)
  let ?g = "g\<lparr>rotation_y := js_add (rotation_y g) (to_double (1 / 1000))\<rparr>"
  let ?s = "s\<lparr>groupRef := Some ?g\<rparr>"
  have c: "useFrame_callback d st s = ?s"
    using Cons.prems by (rule callback_attached)
  have "groupRef ?s = Some ?g" by simp
  then have "run_frames d sts ?s
               = ?s\<lparr>groupRef := Some (?g\<lparr>rotation_y :=
                     ((\<lambda>r. js_add r (to_double (1 / 1000))) ^^ length sts) (rotation_y ?g)\<rparr>)\<rparr>"
    by (rule Cons.IH)
  then show ?case
    by (simp add: c funpow_Suc_right del: funpow.simps)
qed

lemma mounted_group: "groupRef (attach_ref useRef_null) = Some new_group"
  by (simp add: attach_ref_def)

lemma new_group_zero:
  "new_group = \<lparr>rotation_x = Finite 0, rotation_y = Finite 0, rotation_z = Finite 0\<rparr>"
  by (simp add: new_group_def to_double_0)

text \<open>
  Claim C7, as the code has it. With the group attached, after K frames the rotation
  about the y axis is the result of K successive double-precision additions of the
  literal 0.001 to the rotation the group had, whatever the payload and whatever the
  clock readings of the frames; the other two angles are untouched. Started from
  rotation 0, for K up to 9 that result is what the product K * 0.001 evaluates to, and
  for K up to \<open>2 ^ 53\<close> it is within \<open>K\<^sup>2 / 2 ^ 61\<close> of K / 1000.
\<close>

theorem frame_rotation:
  "groupRef s = Some g \<Longrightarrow>
     groupRef (run_frames d sts s)
       = Some (g\<lparr>rotation_y :=
           ((\<lambda>r. js_add r (to_double (1 / 1000))) ^^ length sts) (rotation_y g)\<rparr>)
     \<and> (rotation_y g = to_double 0 \<and> length sts \<le> 9 \<longrightarrow>
          groupRef (run_frames d sts s)
            = Some (g\<lparr>rotation_y :=
                js_mul (to_double (of_nat (length sts))) (to_double (1 / 1000))\<rparr>))
     \<and> (rotation_y g = to_double 0 \<and> length sts \<le> 2 ^ 53 \<longrightarrow>
          (\<exists>r. groupRef (run_frames d sts s) = Some (g\<lparr>rotation_y := Finite r\<rparr>)
               \<and> \<bar>r - of_nat (length sts) / 1000\<bar> \<le> (of_nat (length sts))\<^sup>2 / 2 ^ 61))"
proof -
  assume a: "groupRef s = Some g"
  have r: "groupRef (run_frames d sts s)
             = Some (g\<lparr>rotation_y :=
                 ((\<lambda>r. js_add r (to_double (1 / 1000))) ^^ length sts) (rotation_y g)\<rparr>)"
    by (simp add: run_frames_attached [OF a])
  have "rotation_y g = to_double 0 \<and> length sts \<le> 9 \<longrightarrow>
          ((\<lambda>r. js_add r (to_double (1 / 1000))) ^^ length sts) (rotation_y g)
            = js_mul (to_double (of_nat (length sts))) (to_double (1 / 1000))"
  proof
    assume b: "rotation_y g = to_double 0 \<and> length sts \<le> 9"
    then have z: "rotation_y g = Finite 0"
      by (simp add: to_double_0)
    from b have "length sts \<le> 9" by simp
    then show "((\<lambda>r. js_add r (to_double (1 / 1000))) ^^ length sts) (rotation_y g)
                 = js_mul (to_double (of_nat (length sts))) (to_double (1 / 1000))"
      unfolding z to_double_increment by (rule few_adds)
  qed
  with r have p: "rotation_y g = to_double 0 \<and> length sts \<le> 9 \<longrightarrow>
          groupRef (run_frames d sts s)
            = Some (g\<lparr>rotation_y :=
                js_mul (to_double (of_nat (length sts))) (to_double (1 / 1000))\<rparr>)"
    by simp
  have q: "rotation_y g = to_double 0 \<and> length sts \<le> 2 ^ 53 \<longrightarrow>
          (\<exists>r. groupRef (run_frames d sts s) = Some (g\<lparr>rotation_y := Finite r\<rparr>)
               \<and> \<bar>r - of_nat (length sts) / 1000\<bar> \<le> (of_nat (length sts))\<^sup>2 / 2 ^ 61)"
  proof
    assume b: "rotation_y g = to_double 0 \<and> length sts \<le> 2 ^ 53"
    then have z: "rotation_y g = Finite 0"
      by (simp add: to_double_0)
    from b have "length sts \<le> 9007199254740992" by simp
    from adds_near_product [OF this] obtain x where
      f: "((\<lambda>r. js_add r (to_double (1 / 1000))) ^^ length sts) (Finite 0) = Finite x"
      and e: "\<bar>x - of_nat (length sts) / 1000\<bar> \<le> (of_nat (length sts))\<^sup>2 / 2 ^ 61"
      unfolding to_double_increment by blast
    from r f have "groupRef (run_frames d sts s) = Some (g\<lparr>rotation_y := Finite x\<rparr>)"
      by (simp add: z)
    with e show "\<exists>r. groupRef (run_frames d sts s) = Some (g\<lparr>rotation_y := Finite r\<rparr>)
               \<and> \<bar>r - of_nat (length sts) / 1000\<bar> \<le> (of_nat (length sts))\<^sup>2 / 2 ^ 61"
      by blast
  qed
  from r p q show ?thesis
    by (simp only: simp_thms)
qed

theorem frame_rotation_witness:
  "groupRef (attach_ref useRef_null) = Some new_group
   \<and> rotation_y new_group = to_double 0
   \<and> length three_frames \<le> 9 \<and> length three_frames \<le> 2 ^ 53
   \<and> groupRef (run_frames example_payload three_frames (attach_ref useRef_null))
       = Some \<lparr>rotation_x = Finite 0,
               rotation_y = Finite (3458764513820541 / 1152921504606846976),
               rotation_z = Finite 0\<rparr>
   \<and> \<bar>3458764513820541 / 1152921504606846976 - of_nat (length three_frames) / 1000\<bar>
       \<le> (of_nat (length three_frames) :: rat)\<^sup>2 / 2 ^ 61"
proof -
  have l: "length three_frames = 3"
    by (simp add: three_frames_def)
  have z: "rotation_y new_group = to_double 0"
    by (simp add: new_group_def)
  have n: "length three_frames \<le> 9"
    by (simp add: l)
  have n': "length three_frames \<le> 2 ^ 53"
    by (simp add: l)
  note T = frame_rotation [OF mounted_group, of example_payload three_frames]
  from T z n
  have "groupRef (run_frames example_payload three_frames (attach_ref useRef_null))
          = Some (new_group\<lparr>rotation_y :=
              js_mul (to_double (of_nat (length three_frames))) (to_double (1 / 1000))\<rparr>)"
    by blast
  then have v: "groupRef (run_frames example_payload three_frames (attach_ref useRef_null))
          = Some \<lparr>rotation_x = Finite 0,
                  rotation_y = Finite (3458764513820541 / 1152921504606846976),
                  rotation_z = Finite 0\<rparr>"
    unfolding new_group_zero
    by (simp only: l of_nat_numeral to_double_3 to_double_increment times_3 three_group.simps)
  from T z n' obtain r where
    "groupRef (run_frames example_payload three_frames (attach_ref useRef_null))
       = Some (new_group\<lparr>rotation_y := Finite r\<rparr>)"
    and b: "\<bar>r - of_nat (length three_frames) / 1000\<bar>
              \<le> (of_nat (length three_frames))\<^sup>2 / 2 ^ 61"
    by blast
  with v have "r = 3458764513820541 / 1152921504606846976"
    unfolding new_group_zero by simp
  with b have e: "\<bar>3458764513820541 / 1152921504606846976 - of_nat (length three_frames) / 1000\<bar>
                    \<le> (of_nat (length three_frames) :: rat)\<^sup>2 / 2 ^ 61"
    by simp
  from mounted_group z n n' v e show ?thesis
    by (simp only: simp_thms)
qed

text \<open>
  Claim C7, as stated, fails at K = 10: after ten frames from rotation 0 the rotation is
  0.010000000000000002, the double above the one that \<open>10 * 0.001\<close> evaluates to
  (0.01); it is not the exact tenfold of 1/1000 either, nor the exact tenfold of the
  double written 0.001.
\<close>

theorem rotation_after_ten_frames:
  "length ten_frames = 10
   \<and> groupRef (run_frames example_payload ten_frames (attach_ref useRef_null))
       = Some \<lparr>rotation_x = Finite 0,
               rotation_y = Finite (1441151880758559 / 144115188075855872),
               rotation_z = Finite 0\<rparr>
   \<and> js_mul (to_double 10) (to_double (1 / 1000)) = Finite (5764607523034235 / 576460752303423488)
   \<and> Finite (1441151880758559 / 144115188075855872) \<noteq> js_mul (to_double 10) (to_double (1 / 1000))
   \<and> Finite (1441151880758559 / 144115188075855872) \<noteq> Finite (10 * (1 / 1000))
   \<and> Finite (1441151880758559 / 144115188075855872) \<noteq> Finite (10 * (1152921504606847 / 1152921504606846976))"
proof -
  have l: "length ten_frames = 10"
    by (simp add: ten_frames_def)
  from run_frames_attached [OF mounted_group, of example_payload ten_frames]
  have "groupRef (run_frames example_payload ten_frames (attach_ref useRef_null))
          = Some (new_group\<lparr>rotation_y :=
              ((\<lambda>r. js_add r (Finite (1152921504606847 / 1152921504606846976))) ^^ 10) (rotation_y new_group)\<rparr>)"
    by (simp add: l to_double_increment)
  then have r: "groupRef (run_frames example_payload ten_frames (attach_ref useRef_null))
          = Some \<lparr>rotation_x = Finite 0,
                  rotation_y = Finite (1441151880758559 / 144115188075855872),
                  rotation_z = Finite 0\<rparr>"
    unfolding new_group_zero by (simp only: three_group.simps ten_adds)
  have m: "js_mul (to_double 10) (to_double (1 / 1000)) = Finite (5764607523034235 / 576460752303423488)"
    by (simp only: to_double_10 to_double_increment times_10)
  have d1: "Finite (1441151880758559 / 144115188075855872) \<noteq> js_mul (to_double 10) (to_double (1 / 1000))"
    unfolding m by simp
  have d2: "Finite (1441151880758559 / 144115188075855872) \<noteq> Finite (10 * (1 / 1000))"
    by simp
  have d3: "Finite (1441151880758559 / 144115188075855872) \<noteq> Finite (10 * (1152921504606847 / 1152921504606846976))"
    by simp
  from l r m d1 d2 d3 show ?thesis
    by (simp only: simp_thms)
qed

end
